theory Spec2Isabelle
  imports Main
begin

section \<open>The Sentinel: Fix Pipeline and Verification Loop\<close>

text \<open>
  A shallow embedding of the two orchestration units of the backend:
  \<^item> \<^verbatim>\<open>VerificationLoopService.run_verification_loop\<close>
    (\<^verbatim>\<open>app/services/verification_service.py\<close>), and
  \<^item> the endpoint function \<^verbatim>\<open>analyze_vibe\<close> (\<^verbatim>\<open>app/api/analyze.py\<close>),
  together with the methods of \<^verbatim>\<open>GitHubService\<close> and \<^verbatim>\<open>GeminiService\<close> they call.

  The hosting platform and the generative model are the environment. It is a value of
  type \<open>world\<close>: read queries and write requests answer as functions of their arguments,
  the two sources that are asked repeatedly for new data (the CI state of the pull
  request, the model's corrections) answer from a finite script that each call consumes,
  and a call past the end of a script raises. Every answer may be an exception. The
  world also carries a clock in seconds and the log of the service calls made so far.

  Python exceptions are values of type \<open>exn\<close>; a function that may raise returns
  \<open>exn + 'a\<close> with \<open>Inl\<close> for the exception. Strings are lists of characters, one
  character per Python code point.
\<close>

subsection \<open>Strings\<close>

definition nl :: char where
  "nl = CHR 0x0A"

fun starts_with :: "string \<Rightarrow> string \<Rightarrow> bool" where
  "starts_with [] s = True"
| "starts_with (c # cs) [] = False"
| "starts_with (c # cs) (d # ds) = (c = d \<and> starts_with cs ds)"

text \<open>Python's \<^verbatim>\<open>sub in s\<close> on strings.\<close>

fun contains :: "string \<Rightarrow> string \<Rightarrow> bool" where
  "contains sub [] = (sub = [])"
| "contains sub (c # s) = (starts_with sub (c # s) \<or> contains sub s)"

text \<open>\<^verbatim>\<open>str.lower()\<close>, on the ASCII letters.\<close>

definition lower_char :: "char \<Rightarrow> char" where
  "lower_char c =
     (let n = (of_char c :: nat) in if 65 \<le> n \<and> n \<le> 90 then char_of (n + 32) else c)"

definition lower :: "string \<Rightarrow> string" where
  "lower s = map lower_char s"

text \<open>\<^verbatim>\<open>str(n)\<close> for an integer, as an f-string formats it.\<close>

fun str_nat :: "nat \<Rightarrow> string" where
  "str_nat n =
     (if n < 10 then [char_of (48 + n)] else str_nat (n div 10) @ [char_of (48 + n mod 10)])"

declare str_nat.simps [simp del]

definition str_int :: "int \<Rightarrow> string" where
  "str_int i = (if i < 0 then CHR ''-'' # str_nat (nat (- i)) else str_nat (nat i))"

text \<open>Truthiness of an optional string: \<^verbatim>\<open>None\<close> and \<^verbatim>\<open>""\<close> are false.\<close>

fun truthy :: "string option \<Rightarrow> bool" where
  "truthy None = False"
| "truthy (Some s) = (s \<noteq> [])"

text \<open>\<^verbatim>\<open>d.get(key, default)\<close> on a dictionary of strings.\<close>

definition dict_get :: "(string \<rightharpoonup> string) \<Rightarrow> string \<Rightarrow> string \<Rightarrow> string" where
  "dict_get d k dflt = (case d k of None \<Rightarrow> dflt | Some v \<Rightarrow> v)"

subsection \<open>Exceptions\<close>

text \<open>
  The exception classes the code distinguishes: PyGithub's \<^verbatim>\<open>GithubException\<close>,
  \<^verbatim>\<open>ValueError\<close>, FastAPI's \<^verbatim>\<open>HTTPException\<close> (status code and detail) and any
  other \<^verbatim>\<open>Exception\<close>. The string is \<^verbatim>\<open>str(e)\<close>.
\<close>

datatype exn =
    GithubException string
  | ValueError string
  | HTTPException nat string
  | OtherError string

fun str_exn :: "exn \<Rightarrow> string" where
  "str_exn (GithubException m) = m"
| "str_exn (ValueError m) = m"
| "str_exn (HTTPException code m) = m"
| "str_exn (OtherError m) = m"

fun is_GithubException :: "exn \<Rightarrow> bool" where
  "is_GithubException (GithubException m) = True"
| "is_GithubException e = False"

fun is_HTTPException :: "exn \<Rightarrow> bool" where
  "is_HTTPException (HTTPException code m) = True"
| "is_HTTPException e = False"

subsection \<open>Data\<close>

text \<open>An entry of the list \<^verbatim>\<open>get_file_tree\<close> returns.\<close>

record tree_item =
  item_path :: string
  item_type :: string
  item_size :: "nat option"
  item_sha :: string

text \<open>
  What \<^verbatim>\<open>repo.get_contents\<close> answers: a list (a directory), a single
  \<^verbatim>\<open>ContentFile\<close> with its sha and its text (decoding the text may raise, and the
  text may be missing), or an object of another class.
\<close>

datatype repo_content =
    ContentList
  | ContentFile string "exn + string option"
  | ContentOther

record run_output =
  title :: "string option"
  summary :: "string option"

record check_run =
  run_name :: string
  run_conclusion :: "string option"
  run_output :: "run_output option"
  run_html_url :: string

record status_entry =
  st_context :: string
  st_state :: string
  st_description :: "string option"
  st_target_url :: "string option"

text \<open>The head commit of the pull request as one API round reads it.\<close>

record ci_snapshot =
  combined_state :: string
  combined_statuses :: "status_entry list"
  check_runs :: "check_run list"

text \<open>The dictionary \<^verbatim>\<open>get_pr_status\<close> returns.\<close>

record pr_status =
  state :: string
  statuses :: "status_entry list"
  total_count :: nat

text \<open>An entry of the list \<^verbatim>\<open>get_check_logs\<close> returns.\<close>

record check_log =
  log_name :: string
  log_conclusion :: string
  output_title :: string
  output_summary :: string
  log_html_url :: string

text \<open>
  \<^verbatim>\<open>VerificationResult.error_logs\<close> is a list of dictionaries: check logs, or the
  status entries of the last poll when no check log was found.
\<close>

datatype log_dict = CheckLog check_log | StatusDict status_entry

record VerificationResult =
  success :: bool
  iterations :: int
  final_status :: string
  error_logs :: "log_dict list"
  corrected_code :: "string option"
  error_message :: "string option"

text \<open>
  The fix of a parsed analysis: JSON \<^verbatim>\<open>null\<close> or an object of strings. The parsed
  analysis itself is a dictionary with the keys \<^verbatim>\<open>analysis\<close>, \<^verbatim>\<open>severity\<close> and
  \<^verbatim>\<open>fix\<close>, each of which the model may omit.
\<close>

datatype fix_json = FixNull | FixObj "string \<rightharpoonup> string"

record analysis_dict =
  d_analysis :: "string option"
  d_severity :: "string option"
  d_fix :: "fix_json option"

text \<open>
  The model's answer to the scouting prompt: the call raises, the text does not parse
  (or is no object), or it parses to an object that may hold \<^verbatim>\<open>relevant_files\<close>.
\<close>

datatype scout_reply =
    ScoutRaises exn
  | ScoutUnparsed
  | ScoutParsed "string list option"

subsection \<open>The log of service calls\<close>

datatype event =
    EvPoll string
  | EvGetLogs
  | EvCorrect string "check_log list" string
  | EvCommit string string string string
  | EvScout "string list" "string option"
  | EvScoutPrompt "string list" "string option"
  | EvFetch string
  | EvAnalyze "(string \<times> string) list" "string option" "string list"
  | EvAnalyzePrompt "(string \<times> string) list" "string option" "string list"
  | EvCreateBranch string string
  | EvCreatePull string string string string

subsection \<open>The environment\<close>

record world =
  clock :: nat
  trace :: "event list"
  repo_lookup :: "exn option"
  collaborator :: "exn + bool"
  git_tree :: "string \<Rightarrow> exn + tree_item list"
  get_contents :: "string \<Rightarrow> string \<Rightarrow> exn + repo_content"
  git_ref :: "string \<Rightarrow> exn + string"
  create_git_ref :: "string \<Rightarrow> string \<Rightarrow> exn option"
  update_file :: "string \<Rightarrow> string \<Rightarrow> string \<Rightarrow> string \<Rightarrow> string \<Rightarrow> exn option"
  create_file :: "string \<Rightarrow> string \<Rightarrow> string \<Rightarrow> string \<Rightarrow> exn option"
  create_pull :: "string \<Rightarrow> string \<Rightarrow> string \<Rightarrow> string \<Rightarrow> exn + (string \<times> nat)"
  ci_script :: "(exn + ci_snapshot) list"
  correct_script :: "(exn + (string \<rightharpoonup> string)) list"
  scout_answer :: scout_reply
  analysis_answer :: "exn + analysis_dict"
  image_readable :: "string \<Rightarrow> bool"
  capture_answer :: "exn + string list"
  user_login :: "exn + string"
  gemini_init :: "exn option"
  save_upload :: "string \<Rightarrow> exn option"
  temp_dir :: "exn + string"

definition log_event :: "event \<Rightarrow> world \<Rightarrow> world" where
  "log_event ev w = w\<lparr>trace := trace w @ [ev]\<rparr>"

subsection \<open>GitHubService: CI state\<close>

text \<open>
  \<^verbatim>\<open>get_repository\<close> parses the URL and asks the platform for the repository; either
  may raise. Every method below starts with it.
\<close>

text \<open>\<^verbatim>\<open>_map_conclusion_to_state\<close>\<close>

fun map_conclusion_to_state :: "string option \<Rightarrow> string" where
  "map_conclusion_to_state None = ''pending''"
| "map_conclusion_to_state (Some c) =
     (if c = ''success'' then ''success''
      else if c = ''failure'' then ''failure''
      else ''error'')"

text \<open>\<^verbatim>\<open>getattr(run.output, "title", "") or ""\<close> under \<^verbatim>\<open>if run.output\<close>.\<close>

definition output_field :: "(run_output \<Rightarrow> string option) \<Rightarrow> run_output option \<Rightarrow> string" where
  "output_field field out =
     (case out of
        None \<Rightarrow> []
      | Some ro \<Rightarrow> (case field ro of None \<Rightarrow> [] | Some t \<Rightarrow> t))"

definition run_status :: "check_run \<Rightarrow> status_entry" where
  "run_status run =
     \<lparr>st_context = run_name run,
      st_state = map_conclusion_to_state (run_conclusion run),
      st_description = Some (output_field title (run_output run)),
      st_target_url = Some (run_html_url run)\<rparr>"

text \<open>
  \<^verbatim>\<open>get_pr_status\<close>: the combined status of the head commit, then its check runs. A
  failure of any of its API calls is the script's \<open>Inl\<close> answer.
\<close>

definition get_pr_status :: "world \<Rightarrow> (exn + pr_status) \<times> world" where
  "get_pr_status w =
     (case repo_lookup w of
        Some e \<Rightarrow> (Inl e, w)
      | None \<Rightarrow>
          (case ci_script w of
             [] \<Rightarrow> (Inl (GithubException ''no answer''), w)
           | Inl e # rest \<Rightarrow> (Inl e, w\<lparr>ci_script := rest\<rparr>)
           | Inr snap # rest \<Rightarrow>
               (let sts = combined_statuses snap @ map run_status (check_runs snap)
                in (Inr \<lparr>state = combined_state snap, statuses = sts, total_count = length sts\<rparr>,
                    log_event (EvPoll (combined_state snap)) (w\<lparr>ci_script := rest\<rparr>)))))"

text \<open>\<^verbatim>\<open>time.sleep\<close> raises on a negative length.\<close>

definition time_sleep :: "int \<Rightarrow> world \<Rightarrow> (exn + unit) \<times> world" where
  "time_sleep secs w =
     (if secs < 0 then (Inl (ValueError ''sleep length must be non-negative''), w)
      else (Inr (), w\<lparr>clock := clock w + nat secs\<rparr>))"

definition asyncio_sleep :: "nat \<Rightarrow> world \<Rightarrow> world" where
  "asyncio_sleep secs w = w\<lparr>clock := clock w + secs\<rparr>"

text \<open>
  The loop of \<^verbatim>\<open>wait_for_ci_completion\<close>. \<^verbatim>\<open>(datetime.now() - start_time).seconds\<close> is
  the seconds field of the difference, which wraps at one day.
\<close>

function poll_until :: "nat \<Rightarrow> int \<Rightarrow> int \<Rightarrow> world \<Rightarrow> (exn + pr_status) \<times> world" where
  "poll_until start_time timeout_seconds poll_interval w =
     (if int ((clock w - start_time) mod 86400) < timeout_seconds then
        (case get_pr_status w of
           (Inl e, w1) \<Rightarrow> (Inl e, w1)
         | (Inr status, w1) \<Rightarrow>
             if state status \<noteq> ''pending'' then (Inr status, w1)
             else (case time_sleep poll_interval w1 of
                     (Inl e, w2) \<Rightarrow> (Inl e, w2)
                   | (Inr u, w2) \<Rightarrow> poll_until start_time timeout_seconds poll_interval w2))
      else get_pr_status w)"
  by pat_completeness auto

lemma get_pr_status_consumes:
  "get_pr_status w = (Inr status, w1) \<Longrightarrow> length (ci_script w1) < length (ci_script w)"
  by (auto simp: get_pr_status_def log_event_def Let_def
           split: option.splits list.splits sum.splits)

lemma time_sleep_script:
  "time_sleep secs w = (r, w1) \<Longrightarrow> ci_script w1 = ci_script w"
  by (auto simp: time_sleep_def split: if_splits)

termination poll_until
  apply (relation "measure (\<lambda>(start_time, timeout_seconds, poll_interval, w). length (ci_script w))")
   apply simp
  apply (auto dest!: sym [of _ "get_pr_status _"] sym [of _ "time_sleep _ _"]
                     get_pr_status_consumes time_sleep_script)
  done

declare poll_until.simps [simp del]

definition wait_for_ci_completion :: "int \<Rightarrow> int \<Rightarrow> world \<Rightarrow> (exn + pr_status) \<times> world" where
  "wait_for_ci_completion timeout_seconds poll_interval w =
     poll_until (clock w) timeout_seconds poll_interval w"

text \<open>\<^verbatim>\<open>get_check_logs\<close>: the check runs of the head commit that failed.\<close>

definition failed_run :: "check_run \<Rightarrow> bool" where
  "failed_run run = (run_conclusion run = Some ''failure'' \<or> run_conclusion run = Some ''error'')"

definition run_log :: "check_run \<Rightarrow> check_log" where
  "run_log run =
     \<lparr>log_name = run_name run,
      log_conclusion = (case run_conclusion run of None \<Rightarrow> [] | Some c \<Rightarrow> c),
      output_title = output_field title (run_output run),
      output_summary = output_field summary (run_output run),
      log_html_url = run_html_url run\<rparr>"

definition get_check_logs :: "world \<Rightarrow> (exn + check_log list) \<times> world" where
  "get_check_logs w0 =
     (let w = log_event EvGetLogs w0 in
      case repo_lookup w of
        Some e \<Rightarrow> (Inl e, w)
      | None \<Rightarrow>
          (case ci_script w of
             [] \<Rightarrow> (Inl (GithubException ''no answer''), w)
           | Inl e # rest \<Rightarrow> (Inl e, w\<lparr>ci_script := rest\<rparr>)
           | Inr snap # rest \<Rightarrow>
               (Inr (map run_log (filter failed_run (check_runs snap))), w\<lparr>ci_script := rest\<rparr>)))"

subsection \<open>GitHubService: commits\<close>

text \<open>
  \<^verbatim>\<open>commit_file_changes\<close>: update the file when the path holds one, and create it when
  looking it up or updating it raises a \<^verbatim>\<open>GithubException\<close>.
\<close>

definition commit_file_changes ::
  "string \<Rightarrow> string \<Rightarrow> string \<Rightarrow> string \<Rightarrow> world \<Rightarrow> (exn + unit) \<times> world" where
  "commit_file_changes branch file_path new_content commit_message w0 =
     (let w = log_event (EvCommit branch file_path new_content commit_message) w0 in
      case repo_lookup w of
        Some e \<Rightarrow> (Inl e, w)
      | None \<Rightarrow>
          (let attempt =
             (case get_contents w file_path branch of
                Inl e \<Rightarrow> Some e
              | Inr (ContentFile sha text) \<Rightarrow>
                  update_file w file_path commit_message new_content sha branch
              | Inr other \<Rightarrow> Some (GithubException ''404 Path is a directory, not a file''))
           in case attempt of
                None \<Rightarrow> (Inr (), w)
              | Some e \<Rightarrow>
                  if is_GithubException e then
                    (case create_file w file_path commit_message new_content branch of
                       None \<Rightarrow> (Inr (), w)
                     | Some e2 \<Rightarrow> (Inl e2, w))
                  else (Inl e, w)))"

subsection \<open>GeminiService: self-correction\<close>

text \<open>The loop over \<^verbatim>\<open>required_fields\<close> that fills in what the parsed answer lacks.\<close>

fun fill_required :: "string list \<Rightarrow> (string \<rightharpoonup> string) \<Rightarrow> (string \<rightharpoonup> string)" where
  "fill_required [] result = result"
| "fill_required (field # others) result =
     fill_required others
       (if result field = None
        then result(field \<mapsto> (if field \<noteq> ''error_analysis'' then [] else ''Unknown error''))
        else result)"

text \<open>
  \<^verbatim>\<open>self_correct\<close>. The script's answer is what \<^verbatim>\<open>_parse_json_response\<close> makes of the
  model's text: a dictionary, or the exception of the call or of the parser.
\<close>

definition self_correct ::
  "string \<Rightarrow> check_log list \<Rightarrow> string \<Rightarrow> world \<Rightarrow> (exn + (string \<rightharpoonup> string)) \<times> world" where
  "self_correct original_code logs file_path w0 =
     (let w = log_event (EvCorrect original_code logs file_path) w0 in
      case correct_script w of
        [] \<Rightarrow> (Inl (OtherError ''no answer''), w)
      | Inl e # rest \<Rightarrow> (Inl e, w\<lparr>correct_script := rest\<rparr>)
      | Inr result # rest \<Rightarrow>
          (Inr (fill_required [''error_analysis'', ''corrected_code'', ''changes_made''] result),
           w\<lparr>correct_script := rest\<rparr>))"

subsection \<open>The Verification Loop\<close>

record config =
  max_iterations :: int
  poll_timeout :: int
  poll_interval :: int

text \<open>The values \<^verbatim>\<open>VerificationLoopService.__init__\<close> sets.\<close>

definition default_config :: config where
  "default_config = \<lparr>max_iterations = 3, poll_timeout = 300, poll_interval = 15\<rparr>"

definition correction_message :: "int \<Rightarrow> (string \<rightharpoonup> string) \<Rightarrow> string" where
  "correction_message iteration correction =
     ''fix: Auto-correct CI errors (iteration '' @ str_int iteration @ '')'' @ [nl, nl]
     @ ''Error analysis: '' @ dict_get correction ''error_analysis'' ''N/A'' @ [nl]
     @ ''Changes: '' @ dict_get correction ''changes_made'' ''N/A''"

definition exhausted_message :: "config \<Rightarrow> string" where
  "exhausted_message cfg =
     ''Maximum iterations ('' @ str_int (max_iterations cfg) @ '') reached without CI success''"

text \<open>
  One pass of the \<^verbatim>\<open>while\<close> body, after \<^verbatim>\<open>iteration += 1\<close>: it returns a result,
  raises, or goes on with a new working code and the logs it fetched.
\<close>

datatype step = Return VerificationResult | Raise exn | Continue string "check_log list"

definition loop_body ::
  "config \<Rightarrow> string \<Rightarrow> string \<Rightarrow> int \<Rightarrow> string \<Rightarrow> world \<Rightarrow> step \<times> world" where
  "loop_body cfg branch file_path iteration current_code w =
     (case wait_for_ci_completion (poll_timeout cfg) (poll_interval cfg) w of
        (Inl e, w1) \<Rightarrow> (Raise e, w1)
      | (Inr status, w1) \<Rightarrow>
          if state status = ''success'' then
            (Return \<lparr>success = True, iterations = iteration, final_status = ''success'',
                     error_logs = [], corrected_code = Some current_code,
                     error_message = None\<rparr>, w1)
          else
            (case get_check_logs w1 of
               (Inl e, w2) \<Rightarrow> (Raise e, w2)
             | (Inr logs, w2) \<Rightarrow>
                 if logs = [] then
                   (Return \<lparr>success = False, iterations = iteration,
                            final_status = state status,
                            error_logs = map StatusDict (statuses status),
                            corrected_code = Some current_code,
                            error_message = Some ''CI failed but no specific error logs found''\<rparr>,
                    w2)
                 else
                   (case self_correct current_code logs file_path w2 of
                      (Inl e, w3) \<Rightarrow> (Raise e, w3)
                    | (Inr correction, w3) \<Rightarrow>
                        (let code = dict_get correction ''corrected_code'' current_code in
                         case commit_file_changes branch file_path code
                                (correction_message iteration correction) w3 of
                           (Inl e, w4) \<Rightarrow> (Raise e, w4)
                         | (Inr u, w4) \<Rightarrow> (Continue code logs, asyncio_sleep 5 w4)))))"

function verification_loop ::
  "config \<Rightarrow> string \<Rightarrow> string \<Rightarrow> int \<Rightarrow> string \<Rightarrow> check_log list \<Rightarrow> world
     \<Rightarrow> (exn + VerificationResult) \<times> world" where
  "verification_loop cfg branch file_path iteration current_code logs w =
     (if iteration < max_iterations cfg then
        (case loop_body cfg branch file_path (iteration + 1) current_code w of
           (Return r, w1) \<Rightarrow> (Inr r, w1)
         | (Raise e, w1) \<Rightarrow> (Inl e, w1)
         | (Continue code logs1, w1) \<Rightarrow>
             verification_loop cfg branch file_path (iteration + 1) code logs1 w1)
      else
        (Inr \<lparr>success = False, iterations = iteration, final_status = ''timeout'',
              error_logs = map CheckLog logs, corrected_code = Some current_code,
              error_message = Some (exhausted_message cfg)\<rparr>, w))"
  by pat_completeness auto

termination verification_loop
  by (relation "measure (\<lambda>(cfg, branch, file_path, iteration, current_code, logs, w).
                  nat (max_iterations cfg - iteration))") auto

declare verification_loop.simps [simp del]

text \<open>
  \<^verbatim>\<open>run_verification_loop\<close>. The world stands for the repository and the pull request
  of \<^verbatim>\<open>repo_url\<close> and \<^verbatim>\<open>pr_number\<close>.
\<close>

definition run_verification_loop ::
  "config \<Rightarrow> string \<Rightarrow> string \<Rightarrow> string \<Rightarrow> world \<Rightarrow> (exn + VerificationResult) \<times> world" where
  "run_verification_loop cfg branch file_path original_code w =
     verification_loop cfg branch file_path 0 original_code [] w"

subsection \<open>GitHubService: reading the repository\<close>

text \<open>
  \<^verbatim>\<open>check_write_access\<close>: the repository lookup and the collaborator query stand in one
  \<^verbatim>\<open>try\<close> whose handler returns \<^verbatim>\<open>False\<close> for every exception, so the method itself
  never raises.
\<close>

definition check_write_access :: "world \<Rightarrow> exn + bool" where
  "check_write_access w =
     (case repo_lookup w of
        Some e \<Rightarrow> Inr False
      | None \<Rightarrow> (case collaborator w of Inl e \<Rightarrow> Inr False | Inr b \<Rightarrow> Inr b))"

text \<open>\<^verbatim>\<open>get_file_tree\<close> with its default branch \<^verbatim>\<open>main\<close>.\<close>

definition get_file_tree :: "world \<Rightarrow> exn + tree_item list" where
  "get_file_tree w =
     (case repo_lookup w of
        Some e \<Rightarrow> Inl e
      | None \<Rightarrow>
          (case git_tree w ''main'' of
             Inr items \<Rightarrow> Inr items
           | Inl e \<Rightarrow> if is_GithubException e then git_tree w ''master'' else Inl e))"

text \<open>\<^verbatim>\<open>get_file_content\<close> with its default branch \<^verbatim>\<open>main\<close>.\<close>

definition get_file_content :: "string \<Rightarrow> world \<Rightarrow> (exn + string option) \<times> world" where
  "get_file_content file_path w0 =
     (let w = log_event (EvFetch file_path) w0 in
      case repo_lookup w of
        Some e \<Rightarrow> (Inl e, w)
      | None \<Rightarrow>
          (let attempt =
             (case get_contents w file_path ''main'' of
                Inl e \<Rightarrow> Inl e
              | Inr ContentList \<Rightarrow> Inr None
              | Inr ContentOther \<Rightarrow> Inr None
              | Inr (ContentFile sha text) \<Rightarrow> text)
           in case attempt of
                Inr content \<Rightarrow> (Inr content, w)
              | Inl e \<Rightarrow> if is_GithubException e then (Inr None, w) else (Inl e, w)))"

subsection \<open>GitHubService: branches and pull requests\<close>

text \<open>
  \<^verbatim>\<open>create_branch\<close>: when the reference of the base branch cannot be read, the method
  itself falls back to \<^verbatim>\<open>master\<close> before it creates the new reference.
\<close>

definition create_branch :: "string \<Rightarrow> string \<Rightarrow> world \<Rightarrow> (exn + string) \<times> world" where
  "create_branch base_branch new_branch_name w0 =
     (let w = log_event (EvCreateBranch base_branch new_branch_name) w0 in
      case repo_lookup w of
        Some e \<Rightarrow> (Inl e, w)
      | None \<Rightarrow>
          (let base_ref =
             (case git_ref w (''heads/'' @ base_branch) of
                Inr sha \<Rightarrow> Inr sha
              | Inl e \<Rightarrow> if is_GithubException e then git_ref w ''heads/master'' else Inl e)
           in case base_ref of
                Inl e \<Rightarrow> (Inl e, w)
              | Inr sha \<Rightarrow>
                  (case create_git_ref w (''refs/heads/'' @ new_branch_name) sha of
                     Some e \<Rightarrow> (Inl e, w)
                   | None \<Rightarrow> (Inr new_branch_name, w))))"

text \<open>\<^verbatim>\<open>create_pull_request\<close>; the answer is the URL and the number of the pull request.\<close>

definition create_pull_request ::
  "string \<Rightarrow> string \<Rightarrow> string \<Rightarrow> string \<Rightarrow> world \<Rightarrow> (exn + string \<times> nat) \<times> world" where
  "create_pull_request pr_title body head_branch base_branch w0 =
     (let w = log_event (EvCreatePull pr_title body head_branch base_branch) w0 in
      case repo_lookup w of
        Some e \<Rightarrow> (Inl e, w)
      | None \<Rightarrow>
          (case create_pull w pr_title body head_branch base_branch of
             Inr pr \<Rightarrow> (Inr pr, w)
           | Inl e \<Rightarrow>
               if is_GithubException e
               then (create_pull w pr_title body head_branch ''master'', w)
               else (Inl e, w)))"

subsection \<open>GeminiService: scouting and analysis\<close>

text \<open>The filter \<^verbatim>\<open>scout_files\<close> falls back to when the model's answer does not parse.\<close>

definition web_markers :: "string list" where
  "web_markers =
     [''.tsx'', ''.jsx'', ''.ts'', ''.js'', ''.css'', ''.scss'', ''.styled'', ''component'',
      ''button'', ''modal'', ''page'']"

definition looks_relevant :: "string \<Rightarrow> bool" where
  "looks_relevant path =
     (list_ex (\<lambda>ext. contains ext (lower path)) web_markers \<and> \<not> contains ''node_modules'' path)"

text \<open>
  \<^verbatim>\<open>scout_files\<close>. The prompt lists the first 100 paths, and the description when it is
  not empty. The call of the model stands before the \<^verbatim>\<open>try\<close>; parsing the answer and
  reading \<^verbatim>\<open>relevant_files\<close> stand inside it.
\<close>

definition scout_files :: "string list \<Rightarrow> string option \<Rightarrow> world \<Rightarrow> (exn + string list) \<times> world" where
  "scout_files file_tree bug_description w0 =
     (let w = log_event (EvScoutPrompt (take 100 file_tree)
                           (if truthy bug_description then bug_description else None))
                (log_event (EvScout file_tree bug_description) w0)
      in case scout_answer w of
           ScoutRaises e \<Rightarrow> (Inl e, w)
         | ScoutParsed None \<Rightarrow> (Inr [], w)
         | ScoutParsed (Some relevant_files) \<Rightarrow> (Inr relevant_files, w)
         | ScoutUnparsed \<Rightarrow> (Inr (take 10 (filter looks_relevant file_tree)), w))"

text \<open>
  A dictionary that keeps the order of insertion: assigning to a key it holds replaces
  the value in place.
\<close>

fun dict_set :: "string \<Rightarrow> string \<Rightarrow> (string \<times> string) list \<Rightarrow> (string \<times> string) list" where
  "dict_set k v [] = [(k, v)]"
| "dict_set k v (p # ps) = (if fst p = k then (k, v) # ps else p # dict_set k v ps)"

text \<open>
  \<^verbatim>\<open>analyze_vibe\<close> of the service. The prompt holds each file with the first 2000
  characters of its content, the description when it is not empty, and the images that
  could be read and encoded.
\<close>

definition prompt_files :: "(string \<times> string) list \<Rightarrow> (string \<times> string) list" where
  "prompt_files code_context = map (\<lambda>(file_path, file_content). (file_path, take 2000 file_content)) code_context"

definition fill_analysis :: "analysis_dict \<Rightarrow> analysis_dict" where
  "fill_analysis result =
     \<lparr>d_analysis = (case d_analysis result of None \<Rightarrow> Some ''Unknown'' | Some a \<Rightarrow> Some a),
      d_severity = (case d_severity result of None \<Rightarrow> Some ''Unknown'' | Some s \<Rightarrow> Some s),
      d_fix = (case d_fix result of
                 None \<Rightarrow> Some (FixObj [''file_path'' \<mapsto> [], ''code'' \<mapsto> []])
               | Some f \<Rightarrow> Some f)\<rparr>"

definition gemini_analyze_vibe ::
  "(string \<times> string) list \<Rightarrow> string option \<Rightarrow> string list option \<Rightarrow> world
     \<Rightarrow> (exn + analysis_dict) \<times> world" where
  "gemini_analyze_vibe code_context bug_description image_paths w0 =
     (let paths = (case image_paths of None \<Rightarrow> [] | Some ps \<Rightarrow> ps);
          w = log_event (EvAnalyzePrompt (prompt_files code_context)
                           (if truthy bug_description then bug_description else None)
                           (filter (image_readable w0) paths))
                (log_event (EvAnalyze code_context bug_description paths) w0)
      in case analysis_answer w of
           Inl e \<Rightarrow> (Inl e, w)
         | Inr result \<Rightarrow> (Inr (fill_analysis result), w))"

text \<open>\<^verbatim>\<open>analyze_video_frames\<close>\<close>

definition analyze_video_frames ::
  "string \<Rightarrow> (string \<times> string) list \<Rightarrow> string option \<Rightarrow> world \<Rightarrow> (exn + analysis_dict) \<times> world" where
  "analyze_video_frames video_path code_context bug_description w =
     (let desc = (case bug_description of None \<Rightarrow> [] | Some d \<Rightarrow> d)
      in gemini_analyze_vibe code_context (Some (desc @ '' (Video: '' @ video_path @ '')'')) None w)"

subsection \<open>The Fix Pipeline: the endpoint \<^verbatim>\<open>analyze_vibe\<close>\<close>

text \<open>
  The form fields of a request, the tokens the endpoint can fall back to (the user's
  OAuth token and the token of the settings) and the job id it draws. An uploaded file
  is its file name, which may be missing.
\<close>

record request =
  deployed_url :: "string option"
  bug_description :: "string option"
  github_token :: "string option"
  video :: "string option option"
  images :: "string option list"
  user_token :: "string option"
  env_token :: "string option"
  job_id :: string

record analysis_fix =
  fix_file_path :: string
  fix_code :: string

record analysis_result =
  r_analysis :: string
  r_severity :: string
  r_fix :: analysis_fix

record analyze_response =
  resp_status :: string
  resp_job_id :: string
  resp_analysis :: "analysis_result option"
  pr_url :: "string option"
  screenshots_captured :: "string list option"
  resp_error :: "string option"

text \<open>\<^verbatim>\<open>a or b\<close> on optional strings.\<close>

definition py_or :: "string option \<Rightarrow> string option \<Rightarrow> string option" where
  "py_or a b = (if truthy a then a else b)"

text \<open>\<^verbatim>\<open>d.get(key, default)\<close> for a key of the parsed analysis.\<close>

definition opt_get :: "string option \<Rightarrow> string \<Rightarrow> string" where
  "opt_get v dflt = (case v of None \<Rightarrow> dflt | Some s \<Rightarrow> s)"

definition has_visual_input :: "request \<Rightarrow> bool" where
  "has_visual_input req =
     (video req \<noteq> None \<or> length (images req) > 0 \<or> deployed_url req \<noteq> None)"

text \<open>Step 2: the uploaded images with a file name are written to the temporary directory.\<close>

fun save_images :: "string \<Rightarrow> nat \<Rightarrow> string option list \<Rightarrow> world \<Rightarrow> exn + string list" where
  "save_images dir i [] w = Inr []"
| "save_images dir i (upload # rest) w =
     (if truthy upload then
        (let image_path = dir @ ''/upload_'' @ str_nat i @ ''_'' @ opt_get upload [] in
         case save_upload w image_path of
           Some e \<Rightarrow> Inl e
         | None \<Rightarrow>
             (case save_images dir (i + 1) rest w of
                Inl e \<Rightarrow> Inl e
              | Inr paths \<Rightarrow> Inr (image_path # paths)))
      else save_images dir (i + 1) rest w)"

text \<open>
  Validation and steps 1 to 3: the screenshots captured (none when the capture raises),
  the paths of all images, and the path of the video.
\<close>

definition stage_inputs ::
  "request \<Rightarrow> world \<Rightarrow> exn + (string list option \<times> string list \<times> string option)" where
  "stage_inputs req w =
     (if \<not> has_visual_input req then
        Inl (HTTPException 400
              ''At least one visual input required: video, images, or deployed_url'')
      else
        (case temp_dir w of
           Inl e \<Rightarrow> Inl e
         | Inr dir \<Rightarrow>
             (let shots =
                (if truthy (deployed_url req)
                 then (case capture_answer w of Inl e \<Rightarrow> None | Inr paths \<Rightarrow> Some paths)
                 else None);
                  captured = (case shots of None \<Rightarrow> [] | Some paths \<Rightarrow> paths)
              in case save_images dir 0 (images req) w of
                   Inl e \<Rightarrow> Inl e
                 | Inr uploaded \<Rightarrow>
                     (case video req of
                        None \<Rightarrow> Inr (shots, captured @ uploaded, None)
                      | Some name \<Rightarrow>
                          if truthy name then
                            (let video_path = dir @ ''/video_'' @ opt_get name [] in
                             case save_upload w video_path of
                               Some e \<Rightarrow> Inl e
                             | None \<Rightarrow> Inr (shots, captured @ uploaded, Some video_path))
                          else Inr (shots, captured @ uploaded, None)))))"

text \<open>
  The services: the token that is used, \<^verbatim>\<open>GitHubService.__init__\<close> (which reads the
  login of the token's user and wraps every failure in a \<^verbatim>\<open>ValueError\<close>), and
  \<^verbatim>\<open>get_gemini_service\<close>. The result is the login.
\<close>

definition stage_services :: "request \<Rightarrow> world \<Rightarrow> exn + string" where
  "stage_services req w =
     (let effective_github_token =
            py_or (py_or (github_token req) (user_token req)) (env_token req)
      in if \<not> truthy effective_github_token then
           Inl (HTTPException 400
                 ''No GitHub token available. Please provide a token or connect your GitHub account.'')
         else
           (case user_login w of
              Inl e \<Rightarrow>
                (let error_msg = ''Invalid GitHub token: '' @ str_exn e in
                 if contains ''Invalid GitHub token'' error_msg \<or> contains ''401'' error_msg
                    \<or> contains ''Bad credentials'' error_msg
                 then Inl (HTTPException 401
                        ''Your GitHub token has expired or is invalid. Please re-authenticate with GitHub or provide a valid GitHub token.'')
                 else Inl (HTTPException 400
                        (''Failed to initialize GitHub service: '' @ error_msg)))
            | Inr login \<Rightarrow> (case gemini_init w of Some e \<Rightarrow> Inl e | None \<Rightarrow> Inr login)))"

definition access_denied_detail :: "string \<Rightarrow> string" where
  "access_denied_detail login =
     ''GitHub token for user '' @ [CHR 0x27] @ login @ [CHR 0x27]
     @ '' does not have write access to this repository. ''
     @ ''Please ensure: 1) Your token has 'repo' scope (for private repos) or 'public_repo' scope (for public repos), ''
     @ ''2) You are a collaborator on this repository or it's your own repository, ''
     @ ''3) If it's someone else's repo, fork it first and analyze your fork.''"

text \<open>
  Step 4 and the check of write access. The handler of the check lets every exception
  but an \<^verbatim>\<open>HTTPException\<close> pass with a warning.
\<close>

definition stage_repository :: "string \<Rightarrow> world \<Rightarrow> exn + tree_item list" where
  "stage_repository login w =
     (case get_file_tree w of
        Inl e \<Rightarrow>
          Inl (HTTPException 400
                (''Failed to fetch repository: '' @ str_exn e
                 @ ''. Ensure the repo exists and is accessible.''))
      | Inr file_tree \<Rightarrow>
          (case check_write_access w of
             Inr has_write_access \<Rightarrow>
               if \<not> has_write_access then Inl (HTTPException 403 (access_denied_detail login))
               else Inr file_tree
           | Inl e \<Rightarrow> if is_HTTPException e then Inl e else Inr file_tree))"

text \<open>Step 6: the loop that fetches the files and fills \<^verbatim>\<open>code_context\<close>.\<close>

fun fetch_context ::
  "string list \<Rightarrow> (string \<times> string) list \<Rightarrow> world \<Rightarrow> (exn + (string \<times> string) list) \<times> world" where
  "fetch_context [] code_context w = (Inr code_context, w)"
| "fetch_context (file_path # rest) code_context w =
     (case get_file_content file_path w of
        (Inl e, w1) \<Rightarrow> (Inl e, w1)
      | (Inr content, w1) \<Rightarrow>
          fetch_context rest
            (if truthy content then dict_set file_path (opt_get content []) code_context
             else code_context) w1)"

definition blob_paths :: "tree_item list \<Rightarrow> string list" where
  "blob_paths file_tree = map item_path (filter (\<lambda>f. item_type f = ''blob'') file_tree)"

text \<open>Steps 5 and 6.\<close>

definition stage_context ::
  "request \<Rightarrow> tree_item list \<Rightarrow> world \<Rightarrow> (exn + (string \<times> string) list) \<times> world" where
  "stage_context req file_tree w =
     (case scout_files (blob_paths file_tree) (bug_description req) w of
        (Inl e, w1) \<Rightarrow> (Inl e, w1)
      | (Inr relevant_files, w1) \<Rightarrow>
          (case fetch_context (take 10 relevant_files) [] w1 of
             (Inl e, w2) \<Rightarrow> (Inl e, w2)
           | (Inr code_context, w2) \<Rightarrow>
               if code_context = [] then
                 (Inl (HTTPException 400
                        ''Could not fetch any relevant code files from the repository''), w2)
               else (Inr code_context, w2)))"

text \<open>Step 7.\<close>

definition stage_analysis ::
  "request \<Rightarrow> (string \<times> string) list \<Rightarrow> string list \<Rightarrow> string option \<Rightarrow> world
     \<Rightarrow> (exn + analysis_dict) \<times> world" where
  "stage_analysis req code_context image_paths video_path w =
     (case (if truthy video_path
            then analyze_video_frames (opt_get video_path []) code_context (bug_description req) w
            else gemini_analyze_vibe code_context (bug_description req)
                   (if image_paths \<noteq> [] then Some image_paths else None) w) of
        (Inl e, w1) \<Rightarrow> (Inl (HTTPException 500 (''AI analysis failed: '' @ str_exn e)), w1)
      | (Inr analysis_result, w1) \<Rightarrow> (Inr analysis_result, w1))"

text \<open>
  The test \<^verbatim>\<open>not fix or not fix.get("file_path") or not fix.get("code")\<close> on
  \<^verbatim>\<open>analysis_result.get("fix", {})\<close>. An empty dictionary has neither key, so the two
  lookups decide for every dictionary.
\<close>

definition fix_incomplete :: "fix_json option \<Rightarrow> bool" where
  "fix_incomplete fx =
     (case fx of
        None \<Rightarrow> True
      | Some FixNull \<Rightarrow> True
      | Some (FixObj m) \<Rightarrow> \<not> truthy (m ''file_path'') \<or> \<not> truthy (m ''code''))"

text \<open>\<^verbatim>\<open>fix[key]\<close>, read where the test above has found both keys.\<close>

definition fix_item :: "fix_json option \<Rightarrow> string \<Rightarrow> string" where
  "fix_item fx k = (case fx of Some (FixObj m) \<Rightarrow> dict_get m k [] | other \<Rightarrow> [])"

definition permission_signal :: "exn \<Rightarrow> bool" where
  "permission_signal e =
     (let error_str = lower (str_exn e)
      in contains ''403'' error_str \<or> contains ''forbidden'' error_str)"

definition permission_detail :: string where
  "permission_detail =
     ''GitHub token doesn't have write access to this repository. Please ensure: 1) You're using a Personal Access Token with 'repo' scope, 2) You have push access to the repository, or 3) Connect your GitHub account via OAuth.''"

definition fix_branch_name :: "request \<Rightarrow> string" where
  "fix_branch_name req = ''fix-vibe-'' @ take 8 (job_id req)"

text \<open>Step 8, the branch: \<^verbatim>\<open>main\<close>, and \<^verbatim>\<open>master\<close> after a failure without a permission signal.\<close>

definition create_fix_branch :: "string \<Rightarrow> world \<Rightarrow> (exn + unit) \<times> world" where
  "create_fix_branch branch_name w =
     (case create_branch ''main'' branch_name w of
        (Inr created, w1) \<Rightarrow> (Inr (), w1)
      | (Inl e, w1) \<Rightarrow>
          if permission_signal e then (Inl (HTTPException 403 permission_detail), w1)
          else
            (case create_branch ''master'' branch_name w1 of
               (Inr created, w2) \<Rightarrow> (Inr (), w2)
             | (Inl e2, w2) \<Rightarrow>
                 (Inl (HTTPException 500 (''Failed to create branch: '' @ str_exn e2)), w2)))"

definition pr_body :: "analysis_dict \<Rightarrow> string \<Rightarrow> string" where
  "pr_body analysis_result file_path =
     ''## Automated Vibe Fix'' @ [nl, nl]
     @ ''**Issue:** '' @ opt_get (d_analysis analysis_result) ''N/A'' @ [nl, nl]
     @ ''**Severity:** '' @ opt_get (d_severity analysis_result) ''N/A'' @ [nl, nl]
     @ ''**File Modified:** `'' @ file_path @ ''`'' @ [nl, nl]
     @ ''---'' @ [nl]
     @ ''*This PR was automatically generated by The Sentinel (VibeChecker)*''"

text \<open>The validation of the analysis, step 8 and step 9.\<close>

definition stage_publish ::
  "request \<Rightarrow> string list option \<Rightarrow> analysis_dict \<Rightarrow> world
     \<Rightarrow> (exn + analyze_response) \<times> world" where
  "stage_publish req shots analysis_result w =
     (if fix_incomplete (d_fix analysis_result) then
        (Inr \<lparr>resp_status = ''success'', resp_job_id = job_id req,
              resp_analysis =
                Some \<lparr>r_analysis = opt_get (d_analysis analysis_result)
                                     ''No specific issue identified'',
                      r_severity = opt_get (d_severity analysis_result) ''Low'',
                      r_fix = \<lparr>fix_file_path = [], fix_code = []\<rparr>\<rparr>,
              pr_url = None, screenshots_captured = shots, resp_error = None\<rparr>, w)
      else
        (let file_path = fix_item (d_fix analysis_result) ''file_path'';
             code = fix_item (d_fix analysis_result) ''code'';
             branch_name = fix_branch_name req
         in case create_fix_branch branch_name w of
              (Inl e, w1) \<Rightarrow> (Inl e, w1)
            | (Inr u, w1) \<Rightarrow>
                (case commit_file_changes branch_name file_path code
                        (''fix: '' @ take 50 (opt_get (d_analysis analysis_result)
                                                ''Automated vibe fix'')) w1 of
                   (Inl e, w2) \<Rightarrow>
                     (Inl (HTTPException 500 (''Failed to commit changes: '' @ str_exn e)), w2)
                 | (Inr u2, w2) \<Rightarrow>
                     (case create_pull_request
                             (''fix: '' @ take 50 (opt_get (d_analysis analysis_result) ''Vibe fix''))
                             (pr_body analysis_result file_path) branch_name ''main'' w2 of
                        (Inl e, w3) \<Rightarrow>
                          (Inl (HTTPException 500
                                 (''Failed to create pull request: '' @ str_exn e)), w3)
                      | (Inr (url, number), w3) \<Rightarrow>
                          (Inr \<lparr>resp_status = ''success'', resp_job_id = job_id req,
                                resp_analysis =
                                  Some \<lparr>r_analysis = opt_get (d_analysis analysis_result) [],
                                        r_severity = opt_get (d_severity analysis_result)
                                                       ''Medium'',
                                        r_fix = \<lparr>fix_file_path = file_path,
                                                 fix_code = code\<rparr>\<rparr>,
                                pr_url = Some url, screenshots_captured = shots,
                                resp_error = None\<rparr>, w3)))))"

text \<open>Everything before the validation of the analysis.\<close>

definition stage_prepare ::
  "request \<Rightarrow> world \<Rightarrow> (exn + (string list option \<times> analysis_dict)) \<times> world" where
  "stage_prepare req w =
     (case stage_inputs req w of
        Inl e \<Rightarrow> (Inl e, w)
      | Inr (shots, image_paths, video_path) \<Rightarrow>
          (case stage_services req w of
             Inl e \<Rightarrow> (Inl e, w)
           | Inr login \<Rightarrow>
               (case stage_repository login w of
                  Inl e \<Rightarrow> (Inl e, w)
                | Inr file_tree \<Rightarrow>
                    (case stage_context req file_tree w of
                       (Inl e, w1) \<Rightarrow> (Inl e, w1)
                     | (Inr code_context, w1) \<Rightarrow>
                         (case stage_analysis req code_context image_paths video_path w1 of
                            (Inl e, w2) \<Rightarrow> (Inl e, w2)
                          | (Inr analysis_result, w2) \<Rightarrow>
                              (Inr (shots, analysis_result), w2))))))"

text \<open>
  The body of the outer \<^verbatim>\<open>try\<close>, and the endpoint with its handlers: an
  \<^verbatim>\<open>HTTPException\<close> is raised again, and every other exception becomes one with
  status 500.
\<close>

definition analyze_body :: "request \<Rightarrow> world \<Rightarrow> (exn + analyze_response) \<times> world" where
  "analyze_body req w =
     (case stage_prepare req w of
        (Inl e, w1) \<Rightarrow> (Inl e, w1)
      | (Inr (shots, analysis_result), w1) \<Rightarrow> stage_publish req shots analysis_result w1)"

definition analyze_vibe :: "request \<Rightarrow> world \<Rightarrow> (exn + analyze_response) \<times> world" where
  "analyze_vibe req w =
     (case analyze_body req w of
        (Inl e, w1) \<Rightarrow>
          (Inl (if is_HTTPException e then e
                else HTTPException 500 (''An unexpected error occurred: '' @ str_exn e)), w1)
      | (Inr response, w1) \<Rightarrow> (Inr response, w1))"

subsection \<open>Counting calls in the log\<close>

fun is_correct :: "event \<Rightarrow> bool" where
  "is_correct (EvCorrect code logs file_path) = True"
| "is_correct ev = False"

fun is_get_logs :: "event \<Rightarrow> bool" where
  "is_get_logs EvGetLogs = True"
| "is_get_logs ev = False"

text \<open>The number of calls of \<^verbatim>\<open>self_correct\<close>, and of \<^verbatim>\<open>get_check_logs\<close>, in a log.\<close>

definition corrections :: "event list \<Rightarrow> nat" where
  "corrections tr = length (filter is_correct tr)"

definition fetches :: "event list \<Rightarrow> nat" where
  "fetches tr = length (filter is_get_logs tr)"

text \<open>
  The state of the loop after \<open>n\<close> passes that each ended in a corrective commit:
  the iteration counter, the working code, the logs and the world.
\<close>

fun after_passes ::
  "nat \<Rightarrow> config \<Rightarrow> string \<Rightarrow> string \<Rightarrow> int \<Rightarrow> string \<Rightarrow> check_log list \<Rightarrow> world
     \<Rightarrow> (int \<times> string \<times> check_log list \<times> world) option" where
  "after_passes 0 cfg branch file_path iteration current_code logs w =
     Some (iteration, current_code, logs, w)"
| "after_passes (Suc n) cfg branch file_path iteration current_code logs w =
     (if iteration < max_iterations cfg then
        (case loop_body cfg branch file_path (iteration + 1) current_code w of
           (Continue code logs1, w1) \<Rightarrow>
             after_passes n cfg branch file_path (iteration + 1) code logs1 w1
         | (other, w1) \<Rightarrow> None)
      else None)"

text \<open>
  The three results \<^verbatim>\<open>run_verification_loop\<close> builds: after a successful poll, after a
  failed poll without check logs, and after the last pass the budget allows.
\<close>

definition success_result :: "int \<Rightarrow> string \<Rightarrow> VerificationResult" where
  "success_result iteration current_code =
     \<lparr>success = True, iterations = iteration, final_status = ''success'', error_logs = [],
      corrected_code = Some current_code, error_message = None\<rparr>"

definition no_diagnostics_result :: "int \<Rightarrow> pr_status \<Rightarrow> string \<Rightarrow> VerificationResult" where
  "no_diagnostics_result iteration status current_code =
     \<lparr>success = False, iterations = iteration, final_status = state status,
      error_logs = map StatusDict (statuses status), corrected_code = Some current_code,
      error_message = Some ''CI failed but no specific error logs found''\<rparr>"

definition exhausted_result ::
  "config \<Rightarrow> int \<Rightarrow> string \<Rightarrow> check_log list \<Rightarrow> VerificationResult" where
  "exhausted_result cfg iteration current_code logs =
     \<lparr>success = False, iterations = iteration, final_status = ''timeout'',
      error_logs = map CheckLog logs, corrected_code = Some current_code,
      error_message = Some (exhausted_message cfg)\<rparr>"

text \<open>
  What a log says about the pipeline: the bases of the \<^verbatim>\<open>create_branch\<close> calls, the calls
  that write to the repository, the arguments of the \<^verbatim>\<open>scout_files\<close> calls, the paths
  fetched, the code contexts handed to the analysis capability and the files of the
  prompts it built.
\<close>

fun branch_base :: "event \<Rightarrow> string option" where
  "branch_base (EvCreateBranch base_branch new_branch_name) = Some base_branch"
| "branch_base ev = None"

definition branch_bases :: "event list \<Rightarrow> string list" where
  "branch_bases tr = List.map_filter branch_base tr"

fun is_write :: "event \<Rightarrow> bool" where
  "is_write (EvCreateBranch base_branch new_branch_name) = True"
| "is_write (EvCommit branch file_path new_content commit_message) = True"
| "is_write (EvCreatePull pr_title body head_branch base_branch) = True"
| "is_write ev = False"

definition writes :: "event list \<Rightarrow> event list" where
  "writes tr = filter is_write tr"

fun scout_call :: "event \<Rightarrow> (string list \<times> string option) option" where
  "scout_call (EvScout file_tree description) = Some (file_tree, description)"
| "scout_call ev = None"

definition scouts :: "event list \<Rightarrow> (string list \<times> string option) list" where
  "scouts tr = List.map_filter scout_call tr"

fun fetch_call :: "event \<Rightarrow> string option" where
  "fetch_call (EvFetch file_path) = Some file_path"
| "fetch_call ev = None"

definition fetched :: "event list \<Rightarrow> string list" where
  "fetched tr = List.map_filter fetch_call tr"

fun analyze_call :: "event \<Rightarrow> (string \<times> string) list option" where
  "analyze_call (EvAnalyze code_context description image_paths) = Some code_context"
| "analyze_call ev = None"

definition analyzed :: "event list \<Rightarrow> (string \<times> string) list list" where
  "analyzed tr = List.map_filter analyze_call tr"

fun prompt_call :: "event \<Rightarrow> (string \<times> string) list option" where
  "prompt_call (EvAnalyzePrompt files description encoded) = Some files"
| "prompt_call ev = None"

definition prompted :: "event list \<Rightarrow> (string \<times> string) list list" where
  "prompted tr = List.map_filter prompt_call tr"

subsection \<open>Example environments\<close>

definition quiet_world :: world where
  "quiet_world =
     \<lparr>clock = 0, trace = [], repo_lookup = None, collaborator = Inr True,
      git_tree = (\<lambda>b. Inr []),
      get_contents = (\<lambda>p r. Inr (ContentFile ''abc'' (Inr (Some ''text'')))),
      git_ref = (\<lambda>b. Inr ''abc''),
      create_git_ref = (\<lambda>r s. None),
      update_file = (\<lambda>p m c s b. None),
      create_file = (\<lambda>p m c b. None),
      create_pull = (\<lambda>t b h base. Inr (''https://github.com/o/r/pull/1'', 1)),
      ci_script = [], correct_script = [],
      scout_answer = ScoutParsed (Some []),
      analysis_answer = Inr \<lparr>d_analysis = None, d_severity = None, d_fix = None\<rparr>,
      image_readable = (\<lambda>p. True),
      capture_answer = Inr [],
      user_login = Inr ''octocat'',
      gemini_init = None,
      save_upload = (\<lambda>p. None),
      temp_dir = Inr ''/tmp/vibe''\<rparr>"

definition snapshot :: "string \<Rightarrow> check_run list \<Rightarrow> exn + ci_snapshot" where
  "snapshot st runs = Inr \<lparr>combined_state = st, combined_statuses = [], check_runs = runs\<rparr>"

definition lint_run :: check_run where
  "lint_run =
     \<lparr>run_name = ''lint'', run_conclusion = Some ''failure'', run_output = None,
      run_html_url = ''https://github.com/o/r/runs/7''\<rparr>"

definition lint_log :: check_log where
  "lint_log =
     \<lparr>log_name = ''lint'', log_conclusion = ''failure'', output_title = [],
      output_summary = [], log_html_url = ''https://github.com/o/r/runs/7''\<rparr>"

text \<open>CI succeeds at the first poll.\<close>

definition green_world :: world where
  "green_world = quiet_world\<lparr>ci_script := [snapshot ''success'' []]\<rparr>"

text \<open>
  CI fails once with a failed check; the model answers with a corrected file; CI then
  succeeds.
\<close>

definition repair_world :: world where
  "repair_world = quiet_world
     \<lparr>ci_script := [snapshot ''failure'' [lint_run], snapshot ''failure'' [lint_run],
                    snapshot ''success'' []],
      correct_script := [Inr [''corrected_code'' \<mapsto> ''x = 1'']]\<rparr>"

text \<open>The same, with a model answer that has no \<^verbatim>\<open>corrected_code\<close>.\<close>

definition omission_world :: world where
  "omission_world = quiet_world
     \<lparr>ci_script := [snapshot ''failure'' [lint_run], snapshot ''failure'' [lint_run],
                    snapshot ''success'' []],
      correct_script := [Inr [''error_analysis'' \<mapsto> ''lint'']]\<rparr>"

text \<open>The platform answers the first status request with an error.\<close>

definition outage_world :: world where
  "outage_world = quiet_world\<lparr>ci_script := [Inl (GithubException ''502 Bad Gateway'')]\<rparr>"

text \<open>
  CI stays pending for the whole wait of the default configuration: twenty polls in the
  loop, one after it, and the answer to the request for the check runs.
\<close>

definition pending_world :: world where
  "pending_world = quiet_world\<lparr>ci_script := replicate 22 (snapshot ''pending'' [])\<rparr>"

text \<open>CI fails and the platform answers the request for the check runs with an error.\<close>

definition logs_outage_world :: world where
  "logs_outage_world = quiet_world
     \<lparr>ci_script := [snapshot ''failure'' [lint_run], Inl (GithubException ''502 Bad Gateway'')]\<rparr>"

text \<open>CI fails and no check run of the head commit has failed.\<close>

definition silent_failure_world :: world where
  "silent_failure_world = quiet_world
     \<lparr>ci_script := [snapshot ''failure'' [], snapshot ''failure'' []]\<rparr>"

text \<open>CI fails and the model's answer does not parse.\<close>

definition unparsed_world :: world where
  "unparsed_world = quiet_world
     \<lparr>ci_script := [snapshot ''failure'' [lint_run], snapshot ''failure'' [lint_run]],
      correct_script := [Inl (ValueError ''Failed to parse JSON response'')]\<rparr>"

text \<open>CI fails, the model answers, and the platform refuses every write.\<close>

definition readonly_world :: world where
  "readonly_world = quiet_world
     \<lparr>update_file := (\<lambda>p m c s b. Some (GithubException ''403 Forbidden'')),
      create_file := (\<lambda>p m c b. Some (GithubException ''403 Forbidden'')),
      ci_script := [snapshot ''failure'' [lint_run], snapshot ''failure'' [lint_run]],
      correct_script := [Inr [''corrected_code'' \<mapsto> ''x = 1'']]\<rparr>"

text \<open>
  CI fails, the model answers, the correction is committed, and the platform answers the
  status request of the second pass with an error.
\<close>

definition late_outage_world :: world where
  "late_outage_world = quiet_world
     \<lparr>ci_script := [snapshot ''failure'' [lint_run], snapshot ''failure'' [lint_run],
                    Inl (GithubException ''502 Bad Gateway'')],
      correct_script := [Inr [''corrected_code'' \<mapsto> ''x = 1'']]\<rparr>"

text \<open>A request with one uploaded screenshot and a token in the form.\<close>

definition bug_request :: request where
  "bug_request =
     \<lparr>deployed_url = None, bug_description = Some ''the button is cut off'',
      github_token = Some ''ghp_example'', video = None, images = [Some ''shot.png''],
      user_token = None, env_token = None,
      job_id = ''0a1b2c3d-0000-4000-8000-000000000000''\<rparr>"

definition app_tree :: "tree_item list" where
  "app_tree =
     [\<lparr>item_path = ''src'', item_type = ''tree'', item_size = None, item_sha = ''t1''\<rparr>,
      \<lparr>item_path = ''src/App.tsx'', item_type = ''blob'', item_size = Some 120, item_sha = ''b1''\<rparr>,
      \<lparr>item_path = ''README.md'', item_type = ''blob'', item_size = Some 40, item_sha = ''b2''\<rparr>]"

definition app_fix :: analysis_dict where
  "app_fix =
     \<lparr>d_analysis = Some ''Button overflows its container'', d_severity = Some ''Medium'',
      d_fix = Some (FixObj [''file_path'' \<mapsto> ''src/App.tsx'', ''code'' \<mapsto> ''<App fixed/>''])\<rparr>"

text \<open>
  A repository with a branch \<^verbatim>\<open>main\<close> that the user may write to; the model finds one
  relevant file and proposes a fix for it.
\<close>

definition app_world :: world where
  "app_world = quiet_world
     \<lparr>git_tree := (\<lambda>b. Inr app_tree),
      get_contents := (\<lambda>p r. Inr (ContentFile ''b1'' (Inr (Some ''<App/>'')))),
      scout_answer := ScoutParsed (Some [''src/App.tsx'']),
      analysis_answer := Inr app_fix\<rparr>"

text \<open>The same, where the query for the collaborators fails.\<close>

definition flaky_access_world :: world where
  "flaky_access_world = app_world\<lparr>collaborator := Inl (GithubException ''502 Bad Gateway'')\<rparr>"

text \<open>The same as \<open>app_world\<close>, where the model finds nothing to fix.\<close>

definition no_fix_world :: world where
  "no_fix_world = app_world
     \<lparr>analysis_answer := Inr \<lparr>d_analysis = Some ''Looks fine'', d_severity = Some ''Low'',
                                d_fix = None\<rparr>\<rparr>"

text \<open>The same as \<open>app_world\<close>, where the platform refuses to create a reference.\<close>

definition forbidden_world :: world where
  "forbidden_world = app_world
     \<lparr>create_git_ref := (\<lambda>r s. Some (GithubException ''403 {\"message\": \"Forbidden\"}''))\<rparr>"

text \<open>The same as \<open>app_world\<close>, in a repository that has neither \<^verbatim>\<open>main\<close> nor \<^verbatim>\<open>master\<close> as a reference.\<close>

definition no_base_world :: world where
  "no_base_world = app_world
     \<lparr>git_ref := (\<lambda>r. Inl (GithubException ''404 {\"message\": \"Not Found\"}''))\<rparr>"

text \<open>
  The same as \<open>app_world\<close>, where the platform refuses to read the reference of \<^verbatim>\<open>main\<close>
  with a 403, the reference of \<^verbatim>\<open>master\<close> is readable, and a new reference can be
  created at the commit of \<^verbatim>\<open>master\<close> only.
\<close>

definition masked_main_world :: world where
  "masked_main_world = app_world
     \<lparr>git_ref := (\<lambda>r. if r = ''heads/master'' then Inr ''m45''
                      else Inl (GithubException ''403 {\"message\": \"Forbidden\"}'')),
      create_git_ref := (\<lambda>r s. if s = ''m45'' then None
                      else Some (GithubException ''422 {\"message\": \"Object does not exist\"}''))\<rparr>"

text \<open>
  The same as \<open>app_world\<close>, where the platform refuses to read the reference of \<^verbatim>\<open>main\<close>
  with a 403 and the repository has no \<^verbatim>\<open>master\<close>.
\<close>

definition hidden_main_world :: world where
  "hidden_main_world = app_world
     \<lparr>git_ref := (\<lambda>r. if r = ''heads/main''
                      then Inl (GithubException ''403 {\"message\": \"Forbidden\"}'')
                      else Inl (GithubException ''404 {\"message\": \"Not Found\"}''))\<rparr>"

text \<open>The same as \<open>app_world\<close>, where the relevant file has 2001 characters.\<close>

definition long_file_world :: world where
  "long_file_world = app_world
     \<lparr>get_contents := (\<lambda>p r. Inr (ContentFile ''b1'' (Inr (Some (replicate 2001 CHR ''x'')))))\<rparr>"

text \<open>The same as \<open>app_world\<close>, where the model names twelve relevant files.\<close>

definition twelve_paths :: "string list" where
  "twelve_paths =
     [''src/a01.tsx'', ''src/a02.tsx'', ''src/a03.tsx'', ''src/a04.tsx'', ''src/a05.tsx'',
      ''src/a06.tsx'', ''src/a07.tsx'', ''src/a08.tsx'', ''src/a09.tsx'', ''src/a10.tsx'',
      ''src/a11.tsx'', ''src/a12.tsx'']"

definition crowded_world :: world where
  "crowded_world = app_world\<lparr>scout_answer := ScoutParsed (Some twelve_paths)\<rparr>"

section \<open>Properties of the Verification Loop\<close>

subsection \<open>What each call adds to the log\<close>

lemma corrections_append: "corrections (tr @ [ev]) = corrections tr + (if is_correct ev then 1 else 0)"
  by (simp add: corrections_def)

lemma fetches_append: "fetches (tr @ [ev]) = fetches tr + (if is_get_logs ev then 1 else 0)"
  by (simp add: fetches_def)

lemma get_pr_status_counts:
  "get_pr_status w = (r, w1) \<Longrightarrow>
     corrections (trace w1) = corrections (trace w) \<and> fetches (trace w1) = fetches (trace w)"
  by (auto simp: get_pr_status_def log_event_def Let_def corrections_append fetches_append
           split: option.splits list.splits sum.splits)

lemma time_sleep_trace: "time_sleep secs w = (r, w1) \<Longrightarrow> trace w1 = trace w"
  by (auto simp: time_sleep_def split: if_splits)

lemma poll_until_counts:
  "poll_until start_time timeout_seconds interval w = (r, w1) \<Longrightarrow>
     corrections (trace w1) = corrections (trace w) \<and> fetches (trace w1) = fetches (trace w)"
proof (induction start_time timeout_seconds interval w rule: poll_until.induct)
  case (1 start_time timeout_seconds interval w)
  show ?case
  proof (cases "int ((clock w - start_time) mod 86400) < timeout_seconds")
    case False
    with "1.prems" have "get_pr_status w = (r, w1)"
      by (simp add: poll_until.simps)
    then show ?thesis by (rule get_pr_status_counts)
  next
    case inside: True
    obtain a wa where a: "get_pr_status w = (a, wa)" by (cases "get_pr_status w")
    note ca = get_pr_status_counts [OF a]
    show ?thesis
    proof (cases a)
      case (Inl e)
      with inside a "1.prems" have "w1 = wa" by (simp add: poll_until.simps)
      with ca show ?thesis by simp
    next
      case answered: (Inr status)
      show ?thesis
      proof (cases "state status \<noteq> ''pending''")
        case True
        with inside a answered "1.prems" have "w1 = wa" by (simp add: poll_until.simps)
        with ca show ?thesis by simp
      next
        case pending: False
        obtain s ws where s: "time_sleep interval wa = (s, ws)" by (cases "time_sleep interval wa")
        note ts = time_sleep_trace [OF s]
        show ?thesis
        proof (cases s)
          case (Inl e)
          with inside a answered pending s "1.prems" have "w1 = ws"
            by (simp add: poll_until.simps)
          with ca ts show ?thesis by simp
        next
          case (Inr u)
          with inside a answered pending s "1.prems"
          have "poll_until start_time timeout_seconds interval ws = (r, w1)"
            by (simp add: poll_until.simps)
          with "1.IH" [OF inside a [symmetric] answered pending s [symmetric] Inr]
          have "corrections (trace w1) = corrections (trace ws)
                \<and> fetches (trace w1) = fetches (trace ws)"
            by simp
          with ca ts show ?thesis by simp
        qed
      qed
    qed
  qed
qed

lemma wait_counts:
  "wait_for_ci_completion timeout_seconds interval w = (r, w1) \<Longrightarrow>
     corrections (trace w1) = corrections (trace w) \<and> fetches (trace w1) = fetches (trace w)"
  unfolding wait_for_ci_completion_def by (rule poll_until_counts)

lemma get_check_logs_counts:
  "get_check_logs w = (r, w1) \<Longrightarrow>
     corrections (trace w1) = corrections (trace w) \<and> fetches (trace w1) = fetches (trace w) + 1"
  by (auto simp: get_check_logs_def log_event_def Let_def corrections_append fetches_append
           split: option.splits list.splits sum.splits)

lemma self_correct_counts:
  "self_correct code logs file_path w = (r, w1) \<Longrightarrow>
     corrections (trace w1) = corrections (trace w) + 1 \<and> fetches (trace w1) = fetches (trace w)"
  by (auto simp: self_correct_def log_event_def Let_def corrections_append fetches_append
           split: option.splits list.splits sum.splits)

lemma commit_counts:
  "commit_file_changes branch file_path content msg w = (r, w1) \<Longrightarrow>
     corrections (trace w1) = corrections (trace w) \<and> fetches (trace w1) = fetches (trace w)"
  by (auto simp: commit_file_changes_def log_event_def Let_def corrections_append fetches_append
           split: option.splits list.splits sum.splits repo_content.splits if_splits)

lemma asyncio_sleep_trace: "trace (asyncio_sleep secs w) = trace w"
  by (simp add: asyncio_sleep_def)

lemma loop_body_counts:
  assumes "loop_body cfg b f i cur w = (s, w1)"
  shows "case s of
           Return r \<Rightarrow> corrections (trace w1) = corrections (trace w) \<and> iterations r = i
                        \<and> error_message r \<noteq> Some (exhausted_message cfg)
         | Raise e \<Rightarrow> True
         | Continue c l \<Rightarrow> corrections (trace w1) = corrections (trace w) + 1"
  using assms unfolding loop_body_def
  by (auto simp: Let_def exhausted_message_def asyncio_sleep_trace
           split: prod.splits sum.splits if_splits
           dest!: wait_counts get_check_logs_counts self_correct_counts commit_counts)

lemma verification_loop_counts:
  "verification_loop cfg b f i cur logs w = (Inr r, w') \<Longrightarrow>
     i \<le> iterations r \<and> (i \<le> max_iterations cfg \<longrightarrow> iterations r \<le> max_iterations cfg) \<and>
     int (corrections (trace w')) =
       int (corrections (trace w)) + (iterations r - i)
         - (if error_message r = Some (exhausted_message cfg) then 0 else 1)"
proof (induction cfg b f i cur logs w rule: verification_loop.induct)
  case (1 cfg b f i cur logs w)
  show ?case
  proof (cases "i < max_iterations cfg")
    case False
    with "1.prems" show ?thesis by (auto simp: verification_loop.simps)
  next
    case True
    obtain s w1 where s: "loop_body cfg b f (i + 1) cur w = (s, w1)"
      by (cases "loop_body cfg b f (i + 1) cur w")
    note cnt = loop_body_counts [OF s]
    show ?thesis
    proof (cases s)
      case (Return r0)
      with True s "1.prems" have "r = r0" "w' = w1" by (simp_all add: verification_loop.simps)
      with cnt Return True show ?thesis by simp
    next
      case (Raise e)
      with True s "1.prems" show ?thesis by (simp add: verification_loop.simps)
    next
      case (Continue c l)
      with True s "1.prems" have "verification_loop cfg b f (i + 1) c l w1 = (Inr r, w')"
        by (simp add: verification_loop.simps)
      from "1.IH" [OF True s [symmetric] Continue this] cnt Continue True
      show ?thesis by auto
    qed
  qed
qed

subsection \<open>Evaluating the example runs\<close>

lemmas loop_defs =
  run_verification_loop_def verification_loop.simps loop_body_def
  wait_for_ci_completion_def poll_until.simps get_pr_status_def get_check_logs_def
  self_correct_def commit_file_changes_def log_event_def time_sleep_def asyncio_sleep_def
  dict_get_def correction_message_def failed_run_def run_log_def run_status_def
  output_field_def Let_def default_config_def quiet_world_def snapshot_def lint_run_def
  lint_log_def

lemma green_run:
  "fst (run_verification_loop default_config ''fix-vibe-1'' ''app.py'' ''x = 0'' green_world) =
     Inr \<lparr>success = True, iterations = 1, final_status = ''success'', error_logs = [],
          corrected_code = Some ''x = 0'', error_message = None\<rparr>"
  by (simp add: loop_defs green_world_def)

lemma green_run_trace:
  "trace (snd (run_verification_loop default_config ''fix-vibe-1'' ''app.py'' ''x = 0''
     green_world)) = [EvPoll ''success'']"
  by (simp add: loop_defs green_world_def)

lemma repair_run:
  "fst (run_verification_loop default_config ''fix-vibe-1'' ''app.py'' ''x = 0'' repair_world) =
     Inr \<lparr>success = True, iterations = 2, final_status = ''success'', error_logs = [],
          corrected_code = Some ''x = 1'', error_message = None\<rparr>"
  by (simp add: loop_defs repair_world_def)

subsection \<open>The iteration count\<close>

text \<open>
  C1 (amended). The claim reads: the \<open>iterations\<close> field of the returned result is at
  most \<open>max_iterations\<close> and equals the number of calls of the correction capability made
  during the run. The counter is incremented at the head of every pass, before CI is
  polled, so it counts passes. What holds for every run that returns a result: with a
  budget that is not negative, \<open>iterations\<close> is at most \<open>max_iterations\<close>; and the number
  of calls of \<^verbatim>\<open>self_correct\<close> made during the run is \<open>iterations\<close> when the result is
  the one of the exhausted budget, and \<open>iterations - 1\<close> when the run ended in success or
  for want of check logs.
\<close>

theorem iterations_bound_and_corrections:
  assumes "run_verification_loop cfg branch file_path original_code w = (Inr r, w')"
  shows "(0 \<le> max_iterations cfg \<longrightarrow> iterations r \<le> max_iterations cfg) \<and>
         int (corrections (trace w')) =
           int (corrections (trace w)) + iterations r
             - (if error_message r = Some (exhausted_message cfg) then 0 else 1)"
  using verification_loop_counts [of cfg branch file_path 0 original_code "[]" w r w'] assms
  by (simp add: run_verification_loop_def)

theorem iterations_bound_and_corrections_witness:
  "fst (run_verification_loop default_config ''fix-vibe-1'' ''app.py'' ''x = 0'' repair_world) =
     Inr \<lparr>success = True, iterations = 2, final_status = ''success'', error_logs = [],
          corrected_code = Some ''x = 1'', error_message = None\<rparr> \<and>
   0 \<le> max_iterations default_config \<and> (2::int) \<le> max_iterations default_config \<and>
   corrections (trace (snd (run_verification_loop default_config ''fix-vibe-1'' ''app.py''
     ''x = 0'' repair_world))) = 1"
proof -
  let ?run = "run_verification_loop default_config ''fix-vibe-1'' ''app.py'' ''x = 0'' repair_world"
  let ?r = "\<lparr>success = True, iterations = 2, final_status = ''success'', error_logs = [],
             corrected_code = Some ''x = 1'', error_message = None\<rparr>"
  have "?run = (Inr ?r, snd ?run)"
    using repair_run by (simp add: prod_eq_iff)
  from iterations_bound_and_corrections [OF this]
  have "int (corrections (trace (snd ?run))) = int (corrections (trace repair_world)) + 1"
    by simp
  moreover have "corrections (trace repair_world) = 0"
    by (simp add: repair_world_def quiet_world_def corrections_def)
  ultimately show ?thesis
    using repair_run by (simp add: default_config_def)
qed

text \<open>
  C1 as stated fails where CI succeeds at the first poll: the result counts one
  iteration and the correction capability was never called.
\<close>

theorem iterations_not_corrections_counterexample:
  "fst (run_verification_loop default_config ''fix-vibe-1'' ''app.py'' ''x = 0'' green_world) =
     Inr \<lparr>success = True, iterations = 1, final_status = ''success'', error_logs = [],
          corrected_code = Some ''x = 0'', error_message = None\<rparr> \<and>
   corrections (trace (snd (run_verification_loop default_config ''fix-vibe-1'' ''app.py''
     ''x = 0'' green_world))) = 0"
  using green_run green_run_trace by (simp add: corrections_def)

subsection \<open>Runs as sequences of passes\<close>

text \<open>
  A run that has made \<open>n\<close> passes which each ended in a corrective commit goes on as the
  loop does from the state reached.
\<close>

lemma after_passes_loop:
  "after_passes n cfg branch file_path iteration current_code logs w =
     Some (iteration', code', logs', w') \<Longrightarrow>
   verification_loop cfg branch file_path iteration current_code logs w =
     verification_loop cfg branch file_path iteration' code' logs' w'"
proof (induction n arbitrary: iteration current_code logs w)
  case 0
  then show ?case by simp
next
  case (Suc n)
  from Suc.prems have budget: "iteration < max_iterations cfg"
    by (simp split: if_splits)
  obtain s w1 where s: "loop_body cfg branch file_path (iteration + 1) current_code w = (s, w1)"
    by (cases "loop_body cfg branch file_path (iteration + 1) current_code w")
  with Suc.prems budget obtain code found where go: "s = Continue code found"
    and rest: "after_passes n cfg branch file_path (iteration + 1) code found w1 =
                 Some (iteration', code', logs', w')"
    by (cases s) simp_all
  have "verification_loop cfg branch file_path iteration current_code logs w =
          verification_loop cfg branch file_path (iteration + 1) code found w1"
    using budget s go by (subst verification_loop.simps) simp
  with Suc.IH [OF rest] show ?case by simp
qed

text \<open>
  Every run reaches, after some number of such passes, a state in which the budget is
  spent or the next pass does not end in a corrective commit.
\<close>

lemma verification_loop_final:
  "\<exists>n i cur l w0.
     after_passes n cfg b f i0 c0 l0 w = Some (i, cur, l, w0) \<and>
     (i < max_iterations cfg \<longrightarrow>
        (\<forall>c l1 w1. loop_body cfg b f (i + 1) cur w0 \<noteq> (Continue c l1, w1)))"
proof (induction cfg b f i0 c0 l0 w rule: verification_loop.induct)
  case (1 cfg b f i0 c0 l0 w)
  show ?case
  proof (cases "i0 < max_iterations cfg")
    case False
    then show ?thesis
      by (intro exI [of _ 0] exI [of _ i0] exI [of _ c0] exI [of _ l0] exI [of _ w]) simp
  next
    case True
    obtain s w1 where s: "loop_body cfg b f (i0 + 1) c0 w = (s, w1)"
      by (cases "loop_body cfg b f (i0 + 1) c0 w")
    show ?thesis
    proof (cases "\<exists>c l1. s = Continue c l1")
      case False
      with s show ?thesis
        by (intro exI [of _ 0] exI [of _ i0] exI [of _ c0] exI [of _ l0] exI [of _ w]) auto
    next
      case goes: True
      then obtain c l1 where c: "s = Continue c l1" by blast
      from "1.IH" [OF True s [symmetric] c] obtain n i cur l w0 where
        "after_passes n cfg b f (i0 + 1) c l1 w1 = Some (i, cur, l, w0)"
        "i < max_iterations cfg \<longrightarrow>
           (\<forall>c l1 w1. loop_body cfg b f (i + 1) cur w0 \<noteq> (Continue c l1, w1))"
        by blast
      with True s c show ?thesis
        by (intro exI [of _ "Suc n"] exI [of _ i] exI [of _ cur] exI [of _ l] exI [of _ w0])
           simp
    qed
  qed
qed

text \<open>One pass of the loop, with the three results by their names.\<close>

lemma pass_outcome:
  "verification_loop cfg branch file_path iteration current_code logs w0 =
     (if \<not> iteration < max_iterations cfg
      then (Inr (exhausted_result cfg iteration current_code logs), w0)
      else
        (case wait_for_ci_completion (poll_timeout cfg) (poll_interval cfg) w0 of
           (Inl e, w1) \<Rightarrow> (Inl e, w1)
         | (Inr status, w1) \<Rightarrow>
             if state status = ''success''
             then (Inr (success_result (iteration + 1) current_code), w1)
             else
               (case get_check_logs w1 of
                  (Inl e, w2) \<Rightarrow> (Inl e, w2)
                | (Inr found, w2) \<Rightarrow>
                    if found = []
                    then (Inr (no_diagnostics_result (iteration + 1) status current_code), w2)
                    else
                      (case self_correct current_code found file_path w2 of
                         (Inl e, w3) \<Rightarrow> (Inl e, w3)
                       | (Inr correction, w3) \<Rightarrow>
                           (case commit_file_changes branch file_path
                                   (dict_get correction ''corrected_code'' current_code)
                                   (correction_message (iteration + 1) correction) w3 of
                              (Inl e, w4) \<Rightarrow> (Inl e, w4)
                            | (Inr u, w4) \<Rightarrow>
                                verification_loop cfg branch file_path (iteration + 1)
                                  (dict_get correction ''corrected_code'' current_code) found
                                  (asyncio_sleep 5 w4))))))"
  by (subst verification_loop.simps)
     (simp add: loop_body_def Let_def success_result_def no_diagnostics_result_def
        exhausted_result_def split: prod.splits sum.splits)

subsection \<open>How the loop ends\<close>

text \<open>
  C2 (amended). The claim reads: no exception escapes the loop, and every terminal
  condition (success, exhaustion, missing diagnostics, gateway failure) is represented
  in the returned result. \<^verbatim>\<open>run_verification_loop\<close> has no \<^verbatim>\<open>try\<close>, and neither have
  \<^verbatim>\<open>wait_for_ci_completion\<close>, \<^verbatim>\<open>get_pr_status\<close> and \<^verbatim>\<open>get_check_logs\<close>. What holds of
  every run, from its first call on: take the state the run is in after any number \<open>n\<close>
  of passes that each ended in a corrective commit. If the budget is spent there, the
  run returns the result with status \<open>timeout\<close>; if the wait for CI returns \<open>success\<close>,
  the run returns the result with \<open>success\<close> true; if the state is another one and there
  are no check logs, the run returns the result with that state; and if the wait for CI,
  the request for the check logs, the correction capability or the commit raises an
  exception there, the run raises that exception to the caller, in whichever pass this
  happens. Moreover every run reaches such a state: it ends in one of these seven
  ways, three of them with a result and four with an exception.
\<close>

theorem terminal_conditions:
  shows "(after_passes n cfg branch file_path 0 original_code [] w =
            Some (iteration, current_code, logs, w0) \<longrightarrow>
          (\<not> iteration < max_iterations cfg \<longrightarrow>
             run_verification_loop cfg branch file_path original_code w =
               (Inr (exhausted_result cfg iteration current_code logs), w0)) \<and>
          (iteration < max_iterations cfg \<longrightarrow>
             wait_for_ci_completion (poll_timeout cfg) (poll_interval cfg) w0 = (Inl e, w1) \<longrightarrow>
             run_verification_loop cfg branch file_path original_code w = (Inl e, w1)) \<and>
          (iteration < max_iterations cfg \<longrightarrow>
             wait_for_ci_completion (poll_timeout cfg) (poll_interval cfg) w0 = (Inr status, w1) \<longrightarrow>
             state status = ''success'' \<longrightarrow>
             run_verification_loop cfg branch file_path original_code w =
               (Inr (success_result (iteration + 1) current_code), w1)) \<and>
          (iteration < max_iterations cfg \<longrightarrow>
             wait_for_ci_completion (poll_timeout cfg) (poll_interval cfg) w0 = (Inr status, w1) \<longrightarrow>
             state status \<noteq> ''success'' \<longrightarrow>
             get_check_logs w1 = (Inl e, w2) \<longrightarrow>
             run_verification_loop cfg branch file_path original_code w = (Inl e, w2)) \<and>
          (iteration < max_iterations cfg \<longrightarrow>
             wait_for_ci_completion (poll_timeout cfg) (poll_interval cfg) w0 = (Inr status, w1) \<longrightarrow>
             state status \<noteq> ''success'' \<longrightarrow>
             get_check_logs w1 = (Inr [], w2) \<longrightarrow>
             run_verification_loop cfg branch file_path original_code w =
               (Inr (no_diagnostics_result (iteration + 1) status current_code), w2)) \<and>
          (iteration < max_iterations cfg \<longrightarrow>
             wait_for_ci_completion (poll_timeout cfg) (poll_interval cfg) w0 = (Inr status, w1) \<longrightarrow>
             state status \<noteq> ''success'' \<longrightarrow>
             get_check_logs w1 = (Inr found, w2) \<longrightarrow> found \<noteq> [] \<longrightarrow>
             self_correct current_code found file_path w2 = (Inl e, w3) \<longrightarrow>
             run_verification_loop cfg branch file_path original_code w = (Inl e, w3)) \<and>
          (iteration < max_iterations cfg \<longrightarrow>
             wait_for_ci_completion (poll_timeout cfg) (poll_interval cfg) w0 = (Inr status, w1) \<longrightarrow>
             state status \<noteq> ''success'' \<longrightarrow>
             get_check_logs w1 = (Inr found, w2) \<longrightarrow> found \<noteq> [] \<longrightarrow>
             self_correct current_code found file_path w2 = (Inr correction, w3) \<longrightarrow>
             commit_file_changes branch file_path
               (dict_get correction ''corrected_code'' current_code)
               (correction_message (iteration + 1) correction) w3 = (Inl e, w4) \<longrightarrow>
             run_verification_loop cfg branch file_path original_code w = (Inl e, w4))) \<and>
         (\<exists>m i code found w5.
            after_passes m cfg branch file_path 0 original_code [] w = Some (i, code, found, w5) \<and>
            (\<not> i < max_iterations cfg \<and>
               run_verification_loop cfg branch file_path original_code w =
                 (Inr (exhausted_result cfg i code found), w5) \<or>
             i < max_iterations cfg \<and>
             ((\<exists>x w6. wait_for_ci_completion (poll_timeout cfg) (poll_interval cfg) w5 = (Inl x, w6) \<and>
                 run_verification_loop cfg branch file_path original_code w = (Inl x, w6)) \<or>
              (\<exists>st w6.
                 wait_for_ci_completion (poll_timeout cfg) (poll_interval cfg) w5 = (Inr st, w6) \<and>
                 (state st = ''success'' \<and>
                    run_verification_loop cfg branch file_path original_code w =
                      (Inr (success_result (i + 1) code), w6) \<or>
                  state st \<noteq> ''success'' \<and>
                  ((\<exists>x w7. get_check_logs w6 = (Inl x, w7) \<and>
                      run_verification_loop cfg branch file_path original_code w = (Inl x, w7)) \<or>
                   (\<exists>w7. get_check_logs w6 = (Inr [], w7) \<and>
                      run_verification_loop cfg branch file_path original_code w =
                        (Inr (no_diagnostics_result (i + 1) st code), w7)) \<or>
                   (\<exists>new w7. get_check_logs w6 = (Inr new, w7) \<and> new \<noteq> [] \<and>
                      ((\<exists>x w8. self_correct code new file_path w7 = (Inl x, w8) \<and>
                          run_verification_loop cfg branch file_path original_code w =
                            (Inl x, w8)) \<or>
                       (\<exists>patch w8 x w9.
                          self_correct code new file_path w7 = (Inr patch, w8) \<and>
                          commit_file_changes branch file_path
                            (dict_get patch ''corrected_code'' code)
                            (correction_message (i + 1) patch) w8 = (Inl x, w9) \<and>
                          run_verification_loop cfg branch file_path original_code w =
                            (Inl x, w9))))))))))"
proof (intro conjI impI)
  assume reach: "after_passes n cfg branch file_path 0 original_code [] w =
                   Some (iteration, current_code, logs, w0)"
  then have run: "run_verification_loop cfg branch file_path original_code w =
                    verification_loop cfg branch file_path iteration current_code logs w0"
    unfolding run_verification_loop_def by (rule after_passes_loop)
  {
    assume "\<not> iteration < max_iterations cfg"
    then show "run_verification_loop cfg branch file_path original_code w =
                 (Inr (exhausted_result cfg iteration current_code logs), w0)"
      unfolding run by (subst pass_outcome) simp
  next
    assume "iteration < max_iterations cfg"
      and "wait_for_ci_completion (poll_timeout cfg) (poll_interval cfg) w0 = (Inl e, w1)"
    then show "run_verification_loop cfg branch file_path original_code w = (Inl e, w1)"
      unfolding run by (subst pass_outcome) simp
  next
    assume "iteration < max_iterations cfg"
      and "wait_for_ci_completion (poll_timeout cfg) (poll_interval cfg) w0 = (Inr status, w1)"
      and "state status = ''success''"
    then show "run_verification_loop cfg branch file_path original_code w =
                 (Inr (success_result (iteration + 1) current_code), w1)"
      unfolding run by (subst pass_outcome) simp
  next
    assume "iteration < max_iterations cfg"
      and "wait_for_ci_completion (poll_timeout cfg) (poll_interval cfg) w0 = (Inr status, w1)"
      and "state status \<noteq> ''success''" and "get_check_logs w1 = (Inl e, w2)"
    then show "run_verification_loop cfg branch file_path original_code w = (Inl e, w2)"
      unfolding run by (subst pass_outcome) simp
  next
    assume "iteration < max_iterations cfg"
      and "wait_for_ci_completion (poll_timeout cfg) (poll_interval cfg) w0 = (Inr status, w1)"
      and "state status \<noteq> ''success''" and "get_check_logs w1 = (Inr [], w2)"
    then show "run_verification_loop cfg branch file_path original_code w =
                 (Inr (no_diagnostics_result (iteration + 1) status current_code), w2)"
      unfolding run by (subst pass_outcome) simp
  next
    assume "iteration < max_iterations cfg"
      and "wait_for_ci_completion (poll_timeout cfg) (poll_interval cfg) w0 = (Inr status, w1)"
      and "state status \<noteq> ''success''" and "get_check_logs w1 = (Inr found, w2)"
      and "found \<noteq> []" and "self_correct current_code found file_path w2 = (Inl e, w3)"
    then show "run_verification_loop cfg branch file_path original_code w = (Inl e, w3)"
      unfolding run by (subst pass_outcome) simp
  next
    assume "iteration < max_iterations cfg"
      and "wait_for_ci_completion (poll_timeout cfg) (poll_interval cfg) w0 = (Inr status, w1)"
      and "state status \<noteq> ''success''" and "get_check_logs w1 = (Inr found, w2)"
      and "found \<noteq> []" and "self_correct current_code found file_path w2 = (Inr correction, w3)"
      and "commit_file_changes branch file_path
             (dict_get correction ''corrected_code'' current_code)
             (correction_message (iteration + 1) correction) w3 = (Inl e, w4)"
    then show "run_verification_loop cfg branch file_path original_code w = (Inl e, w4)"
      unfolding run by (subst pass_outcome) simp
  }
next
  from verification_loop_final [of cfg branch file_path 0 original_code "[]" w]
  obtain m i code found w5 where
    reach: "after_passes m cfg branch file_path 0 original_code [] w = Some (i, code, found, w5)"
    and final: "i < max_iterations cfg \<longrightarrow>
                  (\<forall>c l1 w1. loop_body cfg branch file_path (i + 1) code w5 \<noteq> (Continue c l1, w1))"
    by blast
  have run: "run_verification_loop cfg branch file_path original_code w =
               verification_loop cfg branch file_path i code found w5"
    unfolding run_verification_loop_def using reach by (rule after_passes_loop)
  have "\<not> i < max_iterations cfg \<and>
               run_verification_loop cfg branch file_path original_code w =
                 (Inr (exhausted_result cfg i code found), w5) \<or>
             i < max_iterations cfg \<and>
             ((\<exists>x w6. wait_for_ci_completion (poll_timeout cfg) (poll_interval cfg) w5 = (Inl x, w6) \<and>
                 run_verification_loop cfg branch file_path original_code w = (Inl x, w6)) \<or>
              (\<exists>st w6.
                 wait_for_ci_completion (poll_timeout cfg) (poll_interval cfg) w5 = (Inr st, w6) \<and>
                 (state st = ''success'' \<and>
                    run_verification_loop cfg branch file_path original_code w =
                      (Inr (success_result (i + 1) code), w6) \<or>
                  state st \<noteq> ''success'' \<and>
                  ((\<exists>x w7. get_check_logs w6 = (Inl x, w7) \<and>
                      run_verification_loop cfg branch file_path original_code w = (Inl x, w7)) \<or>
                   (\<exists>w7. get_check_logs w6 = (Inr [], w7) \<and>
                      run_verification_loop cfg branch file_path original_code w =
                        (Inr (no_diagnostics_result (i + 1) st code), w7)) \<or>
                   (\<exists>new w7. get_check_logs w6 = (Inr new, w7) \<and> new \<noteq> [] \<and>
                      ((\<exists>x w8. self_correct code new file_path w7 = (Inl x, w8) \<and>
                          run_verification_loop cfg branch file_path original_code w =
                            (Inl x, w8)) \<or>
                       (\<exists>patch w8 x w9.
                          self_correct code new file_path w7 = (Inr patch, w8) \<and>
                          commit_file_changes branch file_path
                            (dict_get patch ''corrected_code'' code)
                            (correction_message (i + 1) patch) w8 = (Inl x, w9) \<and>
                          run_verification_loop cfg branch file_path original_code w =
                            (Inl x, w9))))))))"
  proof (cases "i < max_iterations cfg")
    case False
    then show ?thesis unfolding run by (subst pass_outcome) simp
  next
    case True
    with final have stop: "\<And>c l1 w1. loop_body cfg branch file_path (i + 1) code w5 \<noteq>
                             (Continue c l1, w1)"
      by blast
    obtain a w6 where a: "wait_for_ci_completion (poll_timeout cfg) (poll_interval cfg) w5 = (a, w6)"
      by (cases "wait_for_ci_completion (poll_timeout cfg) (poll_interval cfg) w5")
    show ?thesis
    proof (cases a)
      case (Inl x)
      with True a show ?thesis unfolding run by (subst pass_outcome) simp
    next
      case (Inr st)
      show ?thesis
      proof (cases "state st = ''success''")
        case True
        with \<open>i < max_iterations cfg\<close> a Inr show ?thesis
          unfolding run by (subst pass_outcome) simp
      next
        case failed: False
        obtain b w7 where b: "get_check_logs w6 = (b, w7)"
          by (cases "get_check_logs w6")
        show ?thesis
        proof (cases b)
          case (Inl x)
          with True a Inr failed b show ?thesis
            unfolding run by (subst pass_outcome) simp
        next
          case fetched: (Inr new)
          show ?thesis
          proof (cases "new = []")
            case True
            with \<open>i < max_iterations cfg\<close> a Inr failed b fetched show ?thesis
              unfolding run by (subst pass_outcome) simp
          next
            case some: False
            obtain c w8 where c: "self_correct code new file_path w7 = (c, w8)"
              by (cases "self_correct code new file_path w7")
            show ?thesis
            proof (cases c)
              case (Inl x)
              with True a Inr failed b fetched some c show ?thesis
                unfolding run by (subst pass_outcome) simp
            next
              case corrected: (Inr patch)
              obtain d w9 where d: "commit_file_changes branch file_path
                            (dict_get patch ''corrected_code'' code)
                            (correction_message (i + 1) patch) w8 = (d, w9)"
                by (cases "commit_file_changes branch file_path
                            (dict_get patch ''corrected_code'' code)
                            (correction_message (i + 1) patch) w8")
              show ?thesis
              proof (cases d)
                case (Inl x)
                with True a Inr failed b fetched some c corrected d show ?thesis
                  unfolding run by (subst pass_outcome) simp
              next
                case (Inr u)
                with a \<open>a = Inr st\<close> failed b fetched some c corrected d
                have "loop_body cfg branch file_path (i + 1) code w5 =
                        (Continue (dict_get patch ''corrected_code'' code) new, asyncio_sleep 5 w9)"
                  by (simp add: loop_body_def Let_def)
                with stop show ?thesis by blast
              qed
            qed
          qed
        qed
      qed
    qed
  qed
  with reach show "\<exists>m i code found w5.
            after_passes m cfg branch file_path 0 original_code [] w = Some (i, code, found, w5) \<and>
            (\<not> i < max_iterations cfg \<and>
               run_verification_loop cfg branch file_path original_code w =
                 (Inr (exhausted_result cfg i code found), w5) \<or>
             i < max_iterations cfg \<and>
             ((\<exists>x w6. wait_for_ci_completion (poll_timeout cfg) (poll_interval cfg) w5 = (Inl x, w6) \<and>
                 run_verification_loop cfg branch file_path original_code w = (Inl x, w6)) \<or>
              (\<exists>st w6.
                 wait_for_ci_completion (poll_timeout cfg) (poll_interval cfg) w5 = (Inr st, w6) \<and>
                 (state st = ''success'' \<and>
                    run_verification_loop cfg branch file_path original_code w =
                      (Inr (success_result (i + 1) code), w6) \<or>
                  state st \<noteq> ''success'' \<and>
                  ((\<exists>x w7. get_check_logs w6 = (Inl x, w7) \<and>
                      run_verification_loop cfg branch file_path original_code w = (Inl x, w7)) \<or>
                   (\<exists>w7. get_check_logs w6 = (Inr [], w7) \<and>
                      run_verification_loop cfg branch file_path original_code w =
                        (Inr (no_diagnostics_result (i + 1) st code), w7)) \<or>
                   (\<exists>new w7. get_check_logs w6 = (Inr new, w7) \<and> new \<noteq> [] \<and>
                      ((\<exists>x w8. self_correct code new file_path w7 = (Inl x, w8) \<and>
                          run_verification_loop cfg branch file_path original_code w =
                            (Inl x, w8)) \<or>
                       (\<exists>patch w8 x w9.
                          self_correct code new file_path w7 = (Inr patch, w8) \<and>
                          commit_file_changes branch file_path
                            (dict_get patch ''corrected_code'' code)
                            (correction_message (i + 1) patch) w8 = (Inl x, w9) \<and>
                          run_verification_loop cfg branch file_path original_code w =
                            (Inl x, w9)))))))))"
    by blast
qed

theorem terminal_conditions_witness:
  "fst (run_verification_loop (default_config\<lparr>max_iterations := 1\<rparr>) ''fix-vibe-1'' ''app.py''
          ''x = 0'' repair_world) =
     Inr \<lparr>success = False, iterations = 1, final_status = ''timeout'',
          error_logs = [CheckLog lint_log], corrected_code = Some ''x = 1'',
          error_message = Some (exhausted_message (default_config\<lparr>max_iterations := 1\<rparr>))\<rparr> \<and>
   fst (run_verification_loop default_config ''fix-vibe-1'' ''app.py'' ''x = 0''
          late_outage_world) =
     Inl (GithubException ''502 Bad Gateway'') \<and>
   fst (run_verification_loop default_config ''fix-vibe-1'' ''app.py'' ''x = 0'' repair_world) =
     Inr \<lparr>success = True, iterations = 2, final_status = ''success'', error_logs = [],
          corrected_code = Some ''x = 1'', error_message = None\<rparr> \<and>
   fst (run_verification_loop default_config ''fix-vibe-1'' ''app.py'' ''x = 0''
          logs_outage_world) =
     Inl (GithubException ''502 Bad Gateway'') \<and>
   fst (run_verification_loop default_config ''fix-vibe-1'' ''app.py'' ''x = 0''
          silent_failure_world) =
     Inr \<lparr>success = False, iterations = 1, final_status = ''failure'', error_logs = [],
          corrected_code = Some ''x = 0'',
          error_message = Some ''CI failed but no specific error logs found''\<rparr> \<and>
   fst (run_verification_loop default_config ''fix-vibe-1'' ''app.py'' ''x = 0'' unparsed_world) =
     Inl (ValueError ''Failed to parse JSON response'') \<and>
   fst (run_verification_loop default_config ''fix-vibe-1'' ''app.py'' ''x = 0'' readonly_world) =
     Inl (GithubException ''403 Forbidden'')"
proof -
  let ?cfg = default_config
  let ?one = "default_config\<lparr>max_iterations := 1\<rparr>"
  let ?wait = "wait_for_ci_completion (poll_timeout ?cfg) (poll_interval ?cfg)"
  let ?failed = "\<lparr>state = ''failure'', statuses = [run_status lint_run], total_count = 1\<rparr>"
  let ?passed = "\<lparr>state = ''success'', statuses = [], total_count = 0\<rparr>"
  let ?patch = "fill_required [''error_analysis'', ''corrected_code'', ''changes_made'']
                  [''corrected_code'' \<mapsto> ''x = 1'']"
  note exhausted = terminal_conditions [THEN conjunct1, rule_format, THEN conjunct1, rule_format]
  note wait_raises = terminal_conditions
    [THEN conjunct1, rule_format, THEN conjunct2, THEN conjunct1, rule_format]
  note succeeded = terminal_conditions
    [THEN conjunct1, rule_format, THEN conjunct2, THEN conjunct2, THEN conjunct1, rule_format]
  note logs_raise = terminal_conditions
    [THEN conjunct1, rule_format, THEN conjunct2, THEN conjunct2, THEN conjunct2,
     THEN conjunct1, rule_format]
  note no_logs = terminal_conditions
    [THEN conjunct1, rule_format, THEN conjunct2, THEN conjunct2, THEN conjunct2,
     THEN conjunct2, THEN conjunct1, rule_format]
  note correct_raises = terminal_conditions
    [THEN conjunct1, rule_format, THEN conjunct2, THEN conjunct2, THEN conjunct2,
     THEN conjunct2, THEN conjunct2, THEN conjunct1, rule_format]
  note commit_raises = terminal_conditions
    [THEN conjunct1, rule_format, THEN conjunct2, THEN conjunct2, THEN conjunct2,
     THEN conjunct2, THEN conjunct2, THEN conjunct2, rule_format]
  have start: "\<And>w. after_passes 0 ?cfg ''fix-vibe-1'' ''app.py'' 0 ''x = 0'' [] w =
                      Some (0, ''x = 0'', [], w)"
    by simp
  have budget: "(0::int) < max_iterations ?cfg" and more: "(1::int) < max_iterations ?cfg"
    and spent: "\<not> (1::int) < max_iterations ?one"
    by (simp_all add: default_config_def)
  let ?s1 = "snd (loop_body ?one ''fix-vibe-1'' ''app.py'' (0 + 1) ''x = 0'' repair_world)"
  have "after_passes (Suc 0) ?one ''fix-vibe-1'' ''app.py'' 0 ''x = 0'' [] repair_world =
          Some (1, ''x = 1'', [lint_log], ?s1)"
    by (simp add: prod_eq_iff loop_defs repair_world_def)
  from exhausted [OF this spent]
  have 1: "fst (run_verification_loop ?one ''fix-vibe-1'' ''app.py'' ''x = 0'' repair_world) =
     Inr \<lparr>success = False, iterations = 1, final_status = ''timeout'',
          error_logs = [CheckLog lint_log], corrected_code = Some ''x = 1'',
          error_message = Some (exhausted_message ?one)\<rparr>"
    by (simp add: exhausted_result_def)
  let ?l1 = "snd (loop_body ?cfg ''fix-vibe-1'' ''app.py'' (0 + 1) ''x = 0'' late_outage_world)"
  have later: "after_passes (Suc 0) ?cfg ''fix-vibe-1'' ''app.py'' 0 ''x = 0'' []
                 late_outage_world = Some (1, ''x = 1'', [lint_log], ?l1)"
    by (simp add: prod_eq_iff loop_defs late_outage_world_def)
  have "?wait ?l1 = (Inl (GithubException ''502 Bad Gateway''), snd (?wait ?l1))"
    by (simp add: prod_eq_iff loop_defs late_outage_world_def)
  from wait_raises [OF later more this]
  have 2: "fst (run_verification_loop ?cfg ''fix-vibe-1'' ''app.py'' ''x = 0''
                  late_outage_world) = Inl (GithubException ''502 Bad Gateway'')"
    by simp
  let ?p1 = "snd (loop_body ?cfg ''fix-vibe-1'' ''app.py'' (0 + 1) ''x = 0'' repair_world)"
  have repaired: "after_passes (Suc 0) ?cfg ''fix-vibe-1'' ''app.py'' 0 ''x = 0'' []
                    repair_world = Some (1, ''x = 1'', [lint_log], ?p1)"
    by (simp add: prod_eq_iff loop_defs repair_world_def)
  have "?wait ?p1 = (Inr ?passed, snd (?wait ?p1))"
    by (simp add: prod_eq_iff loop_defs repair_world_def)
  from succeeded [OF repaired more this]
  have 3: "fst (run_verification_loop ?cfg ''fix-vibe-1'' ''app.py'' ''x = 0'' repair_world) =
     Inr \<lparr>success = True, iterations = 2, final_status = ''success'', error_logs = [],
          corrected_code = Some ''x = 1'', error_message = None\<rparr>"
    by (simp add: success_result_def)
  have w4: "?wait logs_outage_world = (Inr ?failed, snd (?wait logs_outage_world))"
    by (simp add: prod_eq_iff loop_defs logs_outage_world_def)
  have "get_check_logs (snd (?wait logs_outage_world)) =
          (Inl (GithubException ''502 Bad Gateway''),
           snd (get_check_logs (snd (?wait logs_outage_world))))"
    by (simp add: prod_eq_iff loop_defs logs_outage_world_def)
  from logs_raise [OF start budget w4 _ this]
  have 4: "fst (run_verification_loop ?cfg ''fix-vibe-1'' ''app.py'' ''x = 0''
                  logs_outage_world) = Inl (GithubException ''502 Bad Gateway'')"
    by simp
  have w5: "?wait silent_failure_world =
          (Inr \<lparr>state = ''failure'', statuses = [], total_count = 0\<rparr>,
           snd (?wait silent_failure_world))"
    by (simp add: prod_eq_iff loop_defs silent_failure_world_def)
  have "get_check_logs (snd (?wait silent_failure_world)) =
          (Inr [], snd (get_check_logs (snd (?wait silent_failure_world))))"
    by (simp add: prod_eq_iff loop_defs silent_failure_world_def)
  from no_logs [OF start budget w5 _ this]
  have 5: "fst (run_verification_loop ?cfg ''fix-vibe-1'' ''app.py'' ''x = 0''
                  silent_failure_world) =
     Inr \<lparr>success = False, iterations = 1, final_status = ''failure'', error_logs = [],
          corrected_code = Some ''x = 0'',
          error_message = Some ''CI failed but no specific error logs found''\<rparr>"
    by (simp add: no_diagnostics_result_def)
  let ?u2 = "snd (get_check_logs (snd (?wait unparsed_world)))"
  have w6: "?wait unparsed_world = (Inr ?failed, snd (?wait unparsed_world))"
    by (simp add: prod_eq_iff loop_defs unparsed_world_def)
  have l6: "get_check_logs (snd (?wait unparsed_world)) = (Inr [lint_log], ?u2)"
    by (simp add: prod_eq_iff loop_defs unparsed_world_def)
  have "self_correct ''x = 0'' [lint_log] ''app.py'' ?u2 =
          (Inl (ValueError ''Failed to parse JSON response''),
           snd (self_correct ''x = 0'' [lint_log] ''app.py'' ?u2))"
    by (simp add: prod_eq_iff loop_defs unparsed_world_def)
  from correct_raises [OF start budget w6 _ l6 _ this]
  have 6: "fst (run_verification_loop ?cfg ''fix-vibe-1'' ''app.py'' ''x = 0'' unparsed_world) =
     Inl (ValueError ''Failed to parse JSON response'')"
    by simp
  let ?r2 = "snd (get_check_logs (snd (?wait readonly_world)))"
  let ?r3 = "snd (self_correct ''x = 0'' [lint_log] ''app.py'' ?r2)"
  have w7: "?wait readonly_world = (Inr ?failed, snd (?wait readonly_world))"
    by (simp add: prod_eq_iff loop_defs readonly_world_def)
  have l7: "get_check_logs (snd (?wait readonly_world)) = (Inr [lint_log], ?r2)"
    by (simp add: prod_eq_iff loop_defs readonly_world_def)
  have c7: "self_correct ''x = 0'' [lint_log] ''app.py'' ?r2 = (Inr ?patch, ?r3)"
    by (simp add: prod_eq_iff loop_defs readonly_world_def)
  have "commit_file_changes ''fix-vibe-1'' ''app.py'' (dict_get ?patch ''corrected_code'' ''x = 0'')
          (correction_message (0 + 1) ?patch) ?r3 =
        (Inl (GithubException ''403 Forbidden''),
         snd (commit_file_changes ''fix-vibe-1'' ''app.py''
                (dict_get ?patch ''corrected_code'' ''x = 0'')
                (correction_message (0 + 1) ?patch) ?r3))"
    by (simp add: prod_eq_iff loop_defs readonly_world_def)
  from commit_raises [OF start budget w7 _ l7 _ c7 this]
  have 7: "fst (run_verification_loop ?cfg ''fix-vibe-1'' ''app.py'' ''x = 0'' readonly_world) =
     Inl (GithubException ''403 Forbidden'')"
    by simp
  from 1 2 3 4 5 6 7 show ?thesis by blast
qed

text \<open>
  C2 as stated fails where the platform answers the first status request with an
  error: the loop raises it.
\<close>

theorem gateway_failure_escapes_counterexample:
  "fst (run_verification_loop default_config ''fix-vibe-1'' ''app.py'' ''x = 0'' outage_world) =
     Inl (GithubException ''502 Bad Gateway'')"
  by (simp add: loop_defs outage_world_def)

subsection \<open>When the check logs are fetched\<close>

lemma loop_body_fetches:
  assumes "loop_body cfg branch file_path iteration current_code w = (s, w')"
  shows "fetches (trace w') =
           fetches (trace w) +
             (case fst (wait_for_ci_completion (poll_timeout cfg) (poll_interval cfg) w) of
                Inl e \<Rightarrow> 0
              | Inr status \<Rightarrow> if state status = ''success'' then 0 else 1)"
  using assms unfolding loop_body_def
  by (auto simp: Let_def asyncio_sleep_trace
           split: prod.splits sum.splits if_splits
           dest!: wait_counts get_check_logs_counts self_correct_counts commit_counts)

lemma replicate_numeral: "replicate (numeral k) x = x # replicate (pred_numeral k) x"
  by (simp add: numeral_eq_Suc)

lemma pending_wait:
  "fst (wait_for_ci_completion (poll_timeout default_config) (poll_interval default_config)
          pending_world) =
     Inr \<lparr>state = ''pending'', statuses = [], total_count = 0\<rparr>"
  by (simp add: loop_defs pending_world_def replicate_numeral)

lemma pending_wait_clock:
  "clock (snd (wait_for_ci_completion (poll_timeout default_config)
                 (poll_interval default_config) pending_world)) = 300"
  by (simp add: loop_defs pending_world_def replicate_numeral)

lemma pending_pass_trace:
  "trace (snd (loop_body default_config ''fix-vibe-1'' ''app.py'' 1 ''x = 0'' pending_world)) =
     replicate 21 (EvPoll ''pending'') @ [EvGetLogs]"
  by (simp add: loop_defs pending_world_def replicate_numeral)

lemma repair_wait:
  "fst (wait_for_ci_completion (poll_timeout default_config) (poll_interval default_config)
          repair_world) =
     Inr \<lparr>state = ''failure'', statuses = [run_status lint_run], total_count = 1\<rparr>"
  by (simp add: loop_defs repair_world_def)

text \<open>
  C6 (amended). The claim reads: check logs are fetched only when the polled combined
  state is \<open>failure\<close> or \<open>error\<close>, never when it is \<open>success\<close> or still \<open>pending\<close>. The
  loop tests the state against \<open>success\<close> alone. What holds for every pass of the loop:
  \<^verbatim>\<open>get_check_logs\<close> is called once when the wait for CI returned a state other than
  \<open>success\<close> (a state still \<open>pending\<close> at the timeout included), and not at all when it
  returned \<open>success\<close> or raised.
\<close>

theorem logs_fetched_unless_success:
  assumes "loop_body cfg branch file_path iteration current_code w = (s, w')"
  shows "(\<forall>e w1. wait_for_ci_completion (poll_timeout cfg) (poll_interval cfg) w = (Inl e, w1)
            \<longrightarrow> fetches (trace w') = fetches (trace w)) \<and>
         (\<forall>status w1.
            wait_for_ci_completion (poll_timeout cfg) (poll_interval cfg) w = (Inr status, w1)
            \<longrightarrow> fetches (trace w') =
                  fetches (trace w) + (if state status = ''success'' then 0 else 1))"
  using loop_body_fetches [OF assms] by auto

theorem logs_fetched_unless_success_witness:
  "fst (wait_for_ci_completion (poll_timeout default_config) (poll_interval default_config)
          repair_world) =
     Inr \<lparr>state = ''failure'', statuses = [run_status lint_run], total_count = 1\<rparr> \<and>
   fetches (trace repair_world) = 0 \<and>
   fetches (trace (snd (loop_body default_config ''fix-vibe-1'' ''app.py'' 1 ''x = 0''
     repair_world))) = 1"
proof -
  let ?wait = "wait_for_ci_completion (poll_timeout default_config) (poll_interval default_config)"
  let ?pass = "loop_body default_config ''fix-vibe-1'' ''app.py'' 1 ''x = 0'' repair_world"
  have none: "fetches (trace repair_world) = 0"
    by (simp add: repair_world_def quiet_world_def fetches_def)
  have pass: "?pass = (fst ?pass, snd ?pass)"
    by simp
  have "?wait repair_world =
          (Inr \<lparr>state = ''failure'', statuses = [run_status lint_run], total_count = 1\<rparr>,
           snd (?wait repair_world))"
    using repair_wait by (simp add: prod_eq_iff)
  with logs_fetched_unless_success [OF pass]
  have "fetches (trace (snd ?pass)) =
          fetches (trace repair_world) +
            (if state \<lparr>state = ''failure'', statuses = [run_status lint_run], total_count = 1\<rparr>
                = ''success'' then 0 else 1)"
    by blast
  with none repair_wait show ?thesis by simp
qed

text \<open>
  C6 as stated fails where CI is still pending when the wait of the default
  configuration times out (300 seconds, a poll every 15): the wait returns the state
  \<open>pending\<close>, and the pass goes on to fetch the check logs.
\<close>

theorem logs_fetched_while_pending_counterexample:
  "fst (wait_for_ci_completion (poll_timeout default_config) (poll_interval default_config)
          pending_world) =
     Inr \<lparr>state = ''pending'', statuses = [], total_count = 0\<rparr> \<and>
   trace (snd (loop_body default_config ''fix-vibe-1'' ''app.py'' 1 ''x = 0'' pending_world)) =
     replicate 21 (EvPoll ''pending'') @ [EvGetLogs] \<and>
   fetches (trace (snd (loop_body default_config ''fix-vibe-1'' ''app.py'' 1 ''x = 0''
     pending_world))) = 1"
  using pending_wait pending_pass_trace by (simp add: fetches_def replicate_numeral)

subsection \<open>The corrected code in the result\<close>

text \<open>
  C9. Take a run whose first \<open>n\<close> passes each ended in a corrective commit, and whose
  next pass polls a state other than \<open>success\<close>, fetches check logs, obtains a correction
  and commits it, so that \<^verbatim>\<open>correction.get("corrected_code", current_code)\<close> becomes the
  working code. If the budget allows one more pass and its wait for CI returns
  \<open>success\<close>, the run returns a result with \<open>success\<close> true and with that code as
  \<open>corrected_code\<close>.
\<close>

theorem adopted_code_round_trip:
  assumes "after_passes n cfg branch file_path 0 original_code [] w =
             Some (iteration, current_code, logs, w0)"
    and "iteration + 1 < max_iterations cfg"
    and "wait_for_ci_completion (poll_timeout cfg) (poll_interval cfg) w0 = (Inr status, w1)"
    and "state status \<noteq> ''success''"
    and "get_check_logs w1 = (Inr found, w2)"
    and "found \<noteq> []"
    and "self_correct current_code found file_path w2 = (Inr correction, w3)"
    and "commit_file_changes branch file_path
           (dict_get correction ''corrected_code'' current_code)
           (correction_message (iteration + 1) correction) w3 = (Inr u, w4)"
    and "wait_for_ci_completion (poll_timeout cfg) (poll_interval cfg) (asyncio_sleep 5 w4) =
           (Inr status', w5)"
    and "state status' = ''success''"
  shows "run_verification_loop cfg branch file_path original_code w =
           (Inr \<lparr>success = True, iterations = iteration + 2, final_status = ''success'',
                 error_logs = [],
                 corrected_code = Some (dict_get correction ''corrected_code'' current_code),
                 error_message = None\<rparr>, w5)"
proof -
  let ?code = "dict_get correction ''corrected_code'' current_code"
  have "run_verification_loop cfg branch file_path original_code w =
          verification_loop cfg branch file_path iteration current_code logs w0"
    unfolding run_verification_loop_def using assms(1) by (rule after_passes_loop)
  also have "\<dots> = verification_loop cfg branch file_path (iteration + 1) ?code found
                     (asyncio_sleep 5 w4)"
    using assms(2-8) by (subst verification_loop.simps) (simp add: loop_body_def Let_def)
  also have "\<dots> = (Inr \<lparr>success = True, iterations = iteration + 2, final_status = ''success'',
                         error_logs = [], corrected_code = Some ?code,
                         error_message = None\<rparr>, w5)"
    using assms(2,9,10) by (subst verification_loop.simps) (simp add: loop_body_def Let_def)
  finally show ?thesis .
qed

theorem adopted_code_round_trip_witness:
  "fst (run_verification_loop default_config ''fix-vibe-1'' ''app.py'' ''x = 0'' repair_world) =
     Inr \<lparr>success = True, iterations = 2, final_status = ''success'', error_logs = [],
          corrected_code = Some ''x = 1'', error_message = None\<rparr>"
proof -
  let ?cfg = default_config
  let ?wait = "wait_for_ci_completion (poll_timeout ?cfg) (poll_interval ?cfg)"
  let ?failed = "\<lparr>state = ''failure'', statuses = [run_status lint_run], total_count = 1\<rparr>"
  let ?passed = "\<lparr>state = ''success'', statuses = [], total_count = 0\<rparr>"
  let ?fix = "fill_required [''error_analysis'', ''corrected_code'', ''changes_made'']
                [''corrected_code'' \<mapsto> ''x = 1'']"
  let ?w1 = "snd (?wait repair_world)"
  let ?w2 = "snd (get_check_logs ?w1)"
  let ?w3 = "snd (self_correct ''x = 0'' [lint_log] ''app.py'' ?w2)"
  let ?commit = "commit_file_changes ''fix-vibe-1'' ''app.py''
                   (dict_get ?fix ''corrected_code'' ''x = 0'') (correction_message (0 + 1) ?fix) ?w3"
  let ?w4 = "snd ?commit"
  let ?w5 = "snd (?wait (asyncio_sleep 5 ?w4))"
  have start: "after_passes 0 ?cfg ''fix-vibe-1'' ''app.py'' 0 ''x = 0'' [] repair_world =
                 Some (0, ''x = 0'', [], repair_world)"
    by simp
  have budget: "(0::int) + 1 < max_iterations ?cfg"
    by (simp add: default_config_def)
  have polled: "?wait repair_world = (Inr ?failed, ?w1)"
    by (simp add: prod_eq_iff loop_defs repair_world_def)
  have failed: "state ?failed \<noteq> ''success''"
    by simp
  have fetched: "get_check_logs ?w1 = (Inr [lint_log], ?w2)"
    by (simp add: prod_eq_iff loop_defs repair_world_def)
  have some: "[lint_log] \<noteq> []"
    by simp
  have corrected: "self_correct ''x = 0'' [lint_log] ''app.py'' ?w2 = (Inr ?fix, ?w3)"
    by (simp add: prod_eq_iff loop_defs repair_world_def)
  have committed: "?commit = (Inr (), ?w4)"
    by (simp add: prod_eq_iff loop_defs repair_world_def)
  have again: "?wait (asyncio_sleep 5 ?w4) = (Inr ?passed, ?w5)"
    by (simp add: prod_eq_iff loop_defs repair_world_def)
  have passed: "state ?passed = ''success''"
    by simp
  from adopted_code_round_trip
    [OF start budget polled failed fetched some corrected committed again passed]
  show ?thesis
    by (simp add: dict_get_def)
qed
subsection \<open>A correction without \<open>corrected_code\<close>\<close>

lemma fill_required_corrected_code:
  "fill_required [''error_analysis'', ''corrected_code'', ''changes_made''] result
     ''corrected_code'' =
   Some (dict_get result ''corrected_code'' [])"
  by (cases "result ''corrected_code''") (simp_all add: dict_get_def)

lemma self_correct_result:
  "self_correct code found file_path w = (Inr d, w') \<Longrightarrow>
   \<exists>result rest. correct_script w = Inr result # rest \<and>
     d = fill_required [''error_analysis'', ''corrected_code'', ''changes_made''] result \<and>
     w' = (log_event (EvCorrect code found file_path) w)\<lparr>correct_script := rest\<rparr>"
  by (auto simp: self_correct_def Let_def log_event_def simp del: fill_required.simps
           split: list.splits sum.splits)

lemma commit_file_changes_trace:
  "commit_file_changes branch file_path content msg w = (r, w') \<Longrightarrow>
   trace w' = trace w @ [EvCommit branch file_path content msg]"
  by (auto simp: commit_file_changes_def Let_def log_event_def
           split: option.splits sum.splits repo_content.splits if_splits)

text \<open>
  C10. Whenever the correction capability returns, its result holds the key
  \<open>corrected_code\<close>, so the default of \<^verbatim>\<open>correction.get("corrected_code", current_code)\<close>
  is never taken; the value is the empty string when the model's parsed answer has no
  such field. In a pass of the loop that reaches the correction capability with such an
  answer, the last call made is the commit of the empty string as the new content of the
  file, and when the commit succeeds the empty string is the next working code.
\<close>

theorem missing_corrected_code:
  shows "(self_correct code found file_path w = (Inr d, w') \<longrightarrow>
            (\<exists>c. d ''corrected_code'' = Some c \<and>
                 dict_get d ''corrected_code'' current_code = c)) \<and>
         (correct_script w = Inr answer # rest \<longrightarrow> answer ''corrected_code'' = None \<longrightarrow>
            (\<exists>d w'. self_correct code found file_path w = (Inr d, w') \<and>
                    d ''corrected_code'' = Some [])) \<and>
         (wait_for_ci_completion (poll_timeout cfg) (poll_interval cfg) w0 = (Inr status, w1) \<longrightarrow>
            state status \<noteq> ''success'' \<longrightarrow>
            get_check_logs w1 = (Inr found, w) \<longrightarrow> found \<noteq> [] \<longrightarrow>
            correct_script w = Inr answer # rest \<longrightarrow> answer ''corrected_code'' = None \<longrightarrow>
            (\<exists>s w5 msg.
               loop_body cfg branch file_path iteration current_code w0 = (s, w5) \<and>
               (s = Continue [] found \<or> (\<exists>e. s = Raise e)) \<and>
               last (trace w5) = EvCommit branch file_path [] msg))"
proof (intro conjI impI)
  assume "self_correct code found file_path w = (Inr d, w')"
  from self_correct_result [OF this] obtain result
    where "d = fill_required [''error_analysis'', ''corrected_code'', ''changes_made''] result"
    by blast
  then have "d ''corrected_code'' = Some (dict_get result ''corrected_code'' [])"
    by (simp only: fill_required_corrected_code)
  then show "\<exists>c. d ''corrected_code'' = Some c \<and>
                dict_get d ''corrected_code'' current_code = c"
    by (simp add: dict_get_def)
next
  assume "correct_script w = Inr answer # rest" and "answer ''corrected_code'' = None"
  then show "\<exists>d w'. self_correct code found file_path w = (Inr d, w') \<and>
                     d ''corrected_code'' = Some []"
    by (simp add: self_correct_def Let_def log_event_def fill_required_corrected_code
                  dict_get_def
             del: fill_required.simps)
next
  let ?d = "fill_required [''error_analysis'', ''corrected_code'', ''changes_made''] answer"
  let ?w3 = "(log_event (EvCorrect current_code found file_path) w)\<lparr>correct_script := rest\<rparr>"
  let ?commit = "commit_file_changes branch file_path [] (correction_message iteration ?d) ?w3"
  assume polled: "wait_for_ci_completion (poll_timeout cfg) (poll_interval cfg) w0 =
                    (Inr status, w1)"
    and failed: "state status \<noteq> ''success''"
    and fetched: "get_check_logs w1 = (Inr found, w)" and some: "found \<noteq> []"
    and script: "correct_script w = Inr answer # rest"
    and omitted: "answer ''corrected_code'' = None"
  have corrected: "self_correct current_code found file_path w = (Inr ?d, ?w3)"
    using script
    by (simp add: self_correct_def Let_def log_event_def del: fill_required.simps)
  have adopted: "dict_get ?d ''corrected_code'' current_code = []"
    using omitted fill_required_corrected_code [of answer] by (simp add: dict_get_def)
  obtain r w4 where commit: "?commit = (r, w4)"
    by (cases ?commit)
  have logged: "trace w4 = trace ?w3 @ [EvCommit branch file_path [] (correction_message iteration ?d)]"
    using commit by (rule commit_file_changes_trace)
  have "loop_body cfg branch file_path iteration current_code w0 =
          (case r of Inl e \<Rightarrow> (Raise e, w4) | Inr u \<Rightarrow> (Continue [] found, asyncio_sleep 5 w4))"
    using polled failed fetched some corrected adopted commit
    by (simp add: loop_body_def Let_def del: fill_required.simps split: sum.splits)
  with logged
  show "\<exists>s w5 msg.
          loop_body cfg branch file_path iteration current_code w0 = (s, w5) \<and>
          (s = Continue [] found \<or> (\<exists>e. s = Raise e)) \<and>
          last (trace w5) = EvCommit branch file_path [] msg"
    by (cases r) (simp_all add: asyncio_sleep_def)
qed

theorem missing_corrected_code_witness:
  "fst (loop_body default_config ''fix-vibe-1'' ''app.py'' 1 ''x = 0'' omission_world) =
     Continue [] [lint_log] \<and>
   (\<exists>msg. last (trace (snd (loop_body default_config ''fix-vibe-1'' ''app.py'' 1 ''x = 0''
              omission_world))) =
          EvCommit ''fix-vibe-1'' ''app.py'' [] msg)"
proof -
  let ?cfg = default_config
  let ?wait = "wait_for_ci_completion (poll_timeout ?cfg) (poll_interval ?cfg)"
  let ?failed = "\<lparr>state = ''failure'', statuses = [run_status lint_run], total_count = 1\<rparr>"
  let ?pass = "loop_body ?cfg ''fix-vibe-1'' ''app.py'' 1 ''x = 0'' omission_world"
  let ?w1 = "snd (?wait omission_world)"
  let ?w2 = "snd (get_check_logs ?w1)"
  have polled: "?wait omission_world = (Inr ?failed, ?w1)"
    by (simp add: prod_eq_iff loop_defs omission_world_def)
  have failed: "state ?failed \<noteq> ''success''"
    by simp
  have fetched: "get_check_logs ?w1 = (Inr [lint_log], ?w2)"
    by (simp add: prod_eq_iff loop_defs omission_world_def)
  have some: "[lint_log] \<noteq> []"
    by simp
  have script: "correct_script ?w2 = Inr [''error_analysis'' \<mapsto> ''lint''] # []"
    by (simp add: loop_defs omission_world_def)
  have omitted: "[''error_analysis'' \<mapsto> ''lint''] ''corrected_code'' = None"
    by simp
  from missing_corrected_code
    [THEN conjunct2, THEN conjunct2, rule_format, OF polled failed fetched some script omitted]
  obtain s w5 msg where "?pass = (s, w5)"
    and "last (trace w5) = EvCommit ''fix-vibe-1'' ''app.py'' [] msg"
    by blast
  then have "\<exists>msg. last (trace (snd ?pass)) = EvCommit ''fix-vibe-1'' ''app.py'' [] msg"
    by auto
  moreover have "fst ?pass = Continue [] [lint_log]"
    by (simp add: loop_defs omission_world_def)
  ultimately show ?thesis
    by blast
qed

section \<open>Properties of the Fix Pipeline\<close>

subsection \<open>What each stage adds to the log\<close>


lemma map_filter_append: "List.map_filter f (xs @ ys) = List.map_filter f xs @ List.map_filter f ys"
  by (simp add: List.map_filter_def)

lemma scout_files_effect:
  "scout_files file_tree d w = (r, w') \<Longrightarrow>
   w' = w\<lparr>trace := trace w @ [EvScout file_tree d,
                               EvScoutPrompt (take 100 file_tree) (if truthy d then d else None)]\<rparr>"
  by (auto simp: scout_files_def Let_def log_event_def split: scout_reply.splits option.splits)

lemma get_file_content_effect:
  "get_file_content file_path w = (r, w') \<Longrightarrow> w' = w\<lparr>trace := trace w @ [EvFetch file_path]\<rparr>"
  by (auto simp: get_file_content_def Let_def log_event_def
           split: option.splits sum.splits repo_content.splits if_splits)

lemma fetch_context_effect:
  "fetch_context paths code_context w = (r, w') \<Longrightarrow>
   \<exists>n\<le>length paths. w' = w\<lparr>trace := trace w @ map EvFetch (take n paths)\<rparr> \<and>
     ((\<exists>c. r = Inr c) \<longrightarrow> n = length paths)"
proof (induction paths arbitrary: code_context w)
  case Nil
  then show ?case by auto
next
  case (Cons file_path rest)
  obtain a w1 where a: "get_file_content file_path w = (a, w1)"
    by (cases "get_file_content file_path w")
  note w1 = get_file_content_effect [OF a]
  show ?case
  proof (cases a)
    case (Inl e)
    with a Cons.prems have "r = Inl e" "w' = w1" by simp_all
    with w1 show ?thesis by (intro exI [of _ 1]) simp
  next
    case (Inr content)
    with a Cons.prems obtain ctx where
      "fetch_context rest ctx w1 = (r, w')" by simp
    from Cons.IH [OF this] obtain n where n: "n \<le> length rest"
      "w' = w1\<lparr>trace := trace w1 @ map EvFetch (take n rest)\<rparr>"
      "(\<exists>c. r = Inr c) \<longrightarrow> n = length rest"
      by blast
    with w1 show ?thesis by (intro exI [of _ "Suc n"]) simp
  qed
qed

lemma length_dict_set: "length (dict_set k v ps) \<le> Suc (length ps)"
  by (induction ps) auto

lemma fetch_context_length:
  "fetch_context paths code_context w = (Inr c, w') \<Longrightarrow>
   length c \<le> length code_context + length paths"
proof (induction paths arbitrary: code_context w)
  case Nil
  then show ?case by simp
next
  case (Cons file_path rest)
  obtain a w1 where a: "get_file_content file_path w = (a, w1)"
    by (cases "get_file_content file_path w")
  with Cons.prems obtain content where "a = Inr content"
    by (cases a) simp_all
  with a Cons.prems have
    "fetch_context rest (if truthy content then dict_set file_path (opt_get content []) code_context
                         else code_context) w1 = (Inr c, w')"
    by simp
  from Cons.IH [OF this] length_dict_set [of file_path "opt_get content []" code_context]
  show ?case by (simp split: if_splits)
qed


lemma gemini_analyze_vibe_effect:
  "gemini_analyze_vibe code_context d image_paths w = (r, w') \<Longrightarrow>
   \<exists>paths d' encoded.
     w' = w\<lparr>trace := trace w @ [EvAnalyze code_context d paths,
                                 EvAnalyzePrompt (prompt_files code_context) d' encoded]\<rparr>"
  by (auto simp: gemini_analyze_vibe_def Let_def log_event_def split: sum.splits option.splits)

lemma stage_analysis_effect:
  "stage_analysis req code_context image_paths video_path w = (r, w') \<Longrightarrow>
   \<exists>d paths d' encoded.
     w' = w\<lparr>trace := trace w @ [EvAnalyze code_context d paths,
                                 EvAnalyzePrompt (prompt_files code_context) d' encoded]\<rparr>"
  unfolding stage_analysis_def analyze_video_frames_def Let_def
  by (auto split: prod.splits sum.splits if_splits dest!: gemini_analyze_vibe_effect)

lemma stage_context_effect:
  assumes "stage_context req file_tree w = (r, w')"
  shows "\<exists>fs. w' = w\<lparr>trace := trace w
                  @ [EvScout (blob_paths file_tree) (bug_description req),
                     EvScoutPrompt (take 100 (blob_paths file_tree))
                       (if truthy (bug_description req) then bug_description req else None)]
                  @ map EvFetch fs\<rparr> \<and>
           (case fst (scout_files (blob_paths file_tree) (bug_description req) w) of
              Inl e \<Rightarrow> fs = []
            | Inr relevant_files \<Rightarrow>
                (\<exists>n. fs = take n (take 10 relevant_files)) \<and>
                ((\<exists>c. r = Inr c) \<longrightarrow> fs = take 10 relevant_files))"
proof -
  let ?paths = "blob_paths file_tree" and ?d = "bug_description req"
  obtain a w1 where a: "scout_files ?paths ?d w = (a, w1)"
    by (cases "scout_files ?paths ?d w")
  note w1 = scout_files_effect [OF a]
  show ?thesis
  proof (cases a)
    case (Inl e)
    with a assms have "w' = w1" by (simp add: stage_context_def)
    with w1 a Inl show ?thesis by (intro exI [of _ "[]"]) simp
  next
    case (Inr relevant_files)
    obtain b w2 where b: "fetch_context (take 10 relevant_files) [] w1 = (b, w2)"
      by (cases "fetch_context (take 10 relevant_files) [] w1")
    from fetch_context_effect [OF b] obtain n where
      n: "w2 = w1\<lparr>trace := trace w1 @ map EvFetch (take n (take 10 relevant_files))\<rparr>"
         "(\<exists>c. b = Inr c) \<longrightarrow> n = length (take 10 relevant_files)"
      by blast
    from a Inr b assms have w': "w' = w2" and r: "(\<exists>c. r = Inr c) \<longrightarrow> (\<exists>c. b = Inr c)"
      by (auto simp: stage_context_def split: sum.splits if_splits)
    from r n(2) have "(\<exists>c. r = Inr c) \<longrightarrow>
        take n (take 10 relevant_files) = take 10 relevant_files"
      by (auto simp: min_def)
    with w' n(1) w1 a Inr show ?thesis
      by (intro exI [of _ "take n (take 10 relevant_files)"]) auto
  qed
qed

lemma stage_context_length:
  assumes "stage_context req file_tree w = (Inr c, w')"
  shows "length c \<le> 10"
proof -
  from assms obtain relevant_files w1 where
    "fetch_context (take 10 relevant_files) [] w1 = (Inr c, w')"
    by (auto simp: stage_context_def split: prod.splits sum.splits if_splits)
  from fetch_context_length [OF this] show ?thesis by simp
qed

lemma create_branch_effect:
  "create_branch base_branch name w = (r, w') \<Longrightarrow>
   w' = w\<lparr>trace := trace w @ [EvCreateBranch base_branch name]\<rparr>"
  by (auto simp: create_branch_def Let_def log_event_def
           split: option.splits sum.splits if_splits)

lemma create_branch_frame:
  "fst (create_branch base_branch name (w\<lparr>trace := t\<rparr>)) = fst (create_branch base_branch name w)"
  by (auto simp: create_branch_def Let_def log_event_def
           split: option.splits sum.splits if_splits)

lemma create_pull_request_effect:
  "create_pull_request t body head_branch base_branch w = (r, w') \<Longrightarrow>
   w' = w\<lparr>trace := trace w @ [EvCreatePull t body head_branch base_branch]\<rparr>"
  by (auto simp: create_pull_request_def Let_def log_event_def
           split: option.splits sum.splits if_splits)

lemma create_fix_branch_effect:
  assumes "create_fix_branch name w = (r, w')"
  shows "case fst (create_branch ''main'' name w) of
           Inr created \<Rightarrow> r = Inr () \<and> trace w' = trace w @ [EvCreateBranch ''main'' name]
         | Inl e \<Rightarrow>
             if permission_signal e
             then r = Inl (HTTPException 403 permission_detail) \<and>
                  trace w' = trace w @ [EvCreateBranch ''main'' name]
             else (r = Inr () \<or> (\<exists>e2. r = Inl (HTTPException 500
                                         (''Failed to create branch: '' @ str_exn e2)))) \<and>
                  trace w' = trace w @ [EvCreateBranch ''main'' name,
                                        EvCreateBranch ''master'' name]"
proof -
  obtain a w1 where a: "create_branch ''main'' name w = (a, w1)"
    by (cases "create_branch ''main'' name w")
  note w1 = create_branch_effect [OF a]
  show ?thesis
  proof (cases a)
    case (Inr created)
    with a assms w1 show ?thesis by (auto simp: create_fix_branch_def)
  next
    case (Inl e)
    show ?thesis
    proof (cases "permission_signal e")
      case True
      with Inl a assms w1 show ?thesis by (auto simp: create_fix_branch_def)
    next
      case False
      obtain b w2 where b: "create_branch ''master'' name w1 = (b, w2)"
        by (cases "create_branch ''master'' name w1")
      note w2 = create_branch_effect [OF b]
      from False Inl a b assms w1 w2 show ?thesis
        by (cases b) (auto simp: create_fix_branch_def)
    qed
  qed
qed


lemma map_filter_fetches_none:
  "(\<And>p. f (EvFetch p) = None) \<Longrightarrow> List.map_filter f (map EvFetch fs) = []"
  by (induction fs) (simp_all add: List.map_filter_simps)

lemma map_filter_fetches: "List.map_filter fetch_call (map EvFetch fs) = fs"
  by (induction fs) (simp_all add: List.map_filter_simps)

lemma filter_fetches_writes: "filter is_write (map EvFetch fs) = []"
  by (induction fs) simp_all

lemma stage_repository_tree:
  "stage_repository login w = Inr file_tree \<Longrightarrow> get_file_tree w = Inr file_tree"
  by (auto simp: stage_repository_def split: sum.splits if_splits)

text \<open>What a run of the stages before the validation has added to the log.\<close>

lemma stage_prepare_effect:
  assumes "stage_prepare req w = (r, w')"
  shows "w' = w \<and> (\<forall>x. r \<noteq> Inr x) \<or>
         (\<exists>file_tree fs rest.
            get_file_tree w = Inr file_tree \<and>
            w' = w\<lparr>trace := trace w
                    @ [EvScout (blob_paths file_tree) (bug_description req),
                       EvScoutPrompt (take 100 (blob_paths file_tree))
                         (if truthy (bug_description req) then bug_description req else None)]
                    @ map EvFetch fs @ rest\<rparr> \<and>
            (case fst (scout_files (blob_paths file_tree) (bug_description req) w) of
               Inl e \<Rightarrow> fs = []
             | Inr relevant_files \<Rightarrow>
                 (\<exists>n. fs = take n (take 10 relevant_files)) \<and>
                 ((\<exists>x. r = Inr x) \<longrightarrow> fs = take 10 relevant_files)) \<and>
            (rest = [] \<and> (\<forall>x. r \<noteq> Inr x) \<or>
             (\<exists>code_context d paths d' encoded.
                rest = [EvAnalyze code_context d paths,
                        EvAnalyzePrompt (prompt_files code_context) d' encoded] \<and>
                length code_context \<le> 10)))"
proof (cases "stage_inputs req w")
  case (Inl e)
  with assms show ?thesis by (auto simp: stage_prepare_def)
next
  case inputs: (Inr got)
  obtain shots image_paths video_path where got: "got = (shots, image_paths, video_path)"
    by (cases got)
  show ?thesis
  proof (cases "stage_services req w")
    case (Inl e)
    with assms inputs got show ?thesis by (auto simp: stage_prepare_def)
  next
    case services: (Inr login)
    show ?thesis
    proof (cases "stage_repository login w")
      case (Inl e)
      with assms inputs got services show ?thesis by (auto simp: stage_prepare_def)
    next
      case repository: (Inr file_tree)
      note tree = stage_repository_tree [OF repository]
      obtain a w1 where a: "stage_context req file_tree w = (a, w1)"
        by (cases "stage_context req file_tree w")
      from stage_context_effect [OF a] obtain fs where
        w1: "w1 = w\<lparr>trace := trace w
                    @ [EvScout (blob_paths file_tree) (bug_description req),
                       EvScoutPrompt (take 100 (blob_paths file_tree))
                         (if truthy (bug_description req) then bug_description req else None)]
                    @ map EvFetch fs\<rparr>"
        and fs: "case fst (scout_files (blob_paths file_tree) (bug_description req) w) of
                   Inl e \<Rightarrow> fs = []
                 | Inr relevant_files \<Rightarrow>
                     (\<exists>n. fs = take n (take 10 relevant_files)) \<and>
                     ((\<exists>c. a = Inr c) \<longrightarrow> fs = take 10 relevant_files)"
        by blast
      show ?thesis
      proof (cases a)
        case (Inl e)
        with assms inputs got services repository a have "w' = w1" "r = Inl e"
          by (simp_all add: stage_prepare_def)
        with w1 fs tree Inl show ?thesis
          by (intro disjI2 exI [of _ file_tree] exI [of _ fs] exI [of _ "[]"])
             (auto split: sum.splits)
      next
        case (Inr code_context)
        obtain b w2 where b: "stage_analysis req code_context image_paths video_path w1 = (b, w2)"
          by (cases "stage_analysis req code_context image_paths video_path w1")
        from stage_analysis_effect [OF b] obtain d paths d' encoded where
          w2: "w2 = w1\<lparr>trace := trace w1 @ [EvAnalyze code_context d paths,
                 EvAnalyzePrompt (prompt_files code_context) d' encoded]\<rparr>"
          by blast
        from a Inr have len: "length code_context \<le> 10"
          using stage_context_length by blast
        from assms inputs got services repository a Inr b have "w' = w2"
          by (auto simp: stage_prepare_def split: sum.splits)
        with w1 w2 fs tree Inr len show ?thesis
          by (intro disjI2 exI [of _ file_tree] exI [of _ fs]
                exI [of _ "[EvAnalyze code_context d paths,
                            EvAnalyzePrompt (prompt_files code_context) d' encoded]"])
             (auto split: sum.splits)
      qed
    qed
  qed
qed


lemma branch_bases_append: "branch_bases (tr @ evs) = branch_bases tr @ branch_bases evs"
  by (simp add: branch_bases_def map_filter_append)

lemma stage_publish_effect:
  assumes "stage_publish req shots analysis_result w = (r, w')"
  shows "\<exists>evs. trace w' = trace w @ evs \<and> list_all is_write evs \<and>
           (fix_incomplete (d_fix analysis_result) \<longrightarrow> evs = [] \<and> w' = w) \<and>
           (\<not> fix_incomplete (d_fix analysis_result) \<longrightarrow>
              (case fst (create_branch ''main'' (fix_branch_name req) w) of
                 Inr created \<Rightarrow> branch_bases evs = [''main'']
               | Inl e \<Rightarrow>
                   if permission_signal e
                   then branch_bases evs = [''main''] \<and>
                        r = Inl (HTTPException 403 permission_detail)
                   else branch_bases evs = [''main'', ''master'']))"
proof (cases "fix_incomplete (d_fix analysis_result)")
  case True
  with assms show ?thesis by (auto simp: stage_publish_def)
next
  case False
  let ?name = "fix_branch_name req"
  let ?main = "EvCreateBranch ''main'' ?name" and ?master = "EvCreateBranch ''master'' ?name"
  obtain a w1 where a: "create_fix_branch ?name w = (a, w1)"
    by (cases "create_fix_branch ?name w")
  note branch = create_fix_branch_effect [OF a]
  define bs where "bs = (case fst (create_branch ''main'' ?name w) of
      Inr created \<Rightarrow> [?main]
    | Inl e \<Rightarrow> if permission_signal e then [?main] else [?main, ?master])"
  from branch have w1: "trace w1 = trace w @ bs"
    by (auto simp: bs_def split: sum.splits if_splits)
  have bs_writes: "list_all is_write bs"
    by (auto simp: bs_def split: sum.splits)
  have bs_bases: "case fst (create_branch ''main'' ?name w) of
                    Inr created \<Rightarrow> branch_bases bs = [''main'']
                  | Inl e \<Rightarrow> if permission_signal e then branch_bases bs = [''main'']
                             else branch_bases bs = [''main'', ''master'']"
    by (auto simp: bs_def branch_bases_def List.map_filter_simps split: sum.splits)
  show ?thesis
  proof (cases a)
    case (Inl e)
    with False a assms have "r = Inl e" "w' = w1"
      by (simp_all add: stage_publish_def Let_def)
    moreover from branch Inl have "\<And>e'. fst (create_branch ''main'' ?name w) = Inl e' \<Longrightarrow>
        permission_signal e' \<Longrightarrow> a = Inl (HTTPException 403 permission_detail)"
      by simp
    ultimately show ?thesis
      using False w1 bs_writes bs_bases Inl
      by (intro exI [of _ bs]) (auto split: sum.splits if_splits)
  next
    case (Inr u)
    with branch have ok: "\<And>e'. fst (create_branch ''main'' ?name w) = Inl e' \<Longrightarrow>
        \<not> permission_signal e'"
      by (auto split: if_splits)
    let ?file = "fix_item (d_fix analysis_result) ''file_path''"
    let ?code = "fix_item (d_fix analysis_result) ''code''"
    let ?msg = "''fix: '' @ take 50 (opt_get (d_analysis analysis_result) ''Automated vibe fix'')"
    let ?commit = "EvCommit ?name ?file ?code ?msg"
    obtain b w2 where b: "commit_file_changes ?name ?file ?code ?msg w1 = (b, w2)"
      by (cases "commit_file_changes ?name ?file ?code ?msg w1")
    note w2 = commit_file_changes_trace [OF b]
    show ?thesis
    proof (cases b)
      case (Inl e)
      with False a Inr b assms have "w' = w2"
        by (simp add: stage_publish_def Let_def)
      with w1 w2 bs_writes bs_bases ok show ?thesis
        by (intro exI [of _ "bs @ [?commit]"])
           (auto simp: False branch_bases_def map_filter_append List.map_filter_simps
                 split: sum.splits)
    next
      case committed: (Inr u2)
      let ?title = "''fix: '' @ take 50 (opt_get (d_analysis analysis_result) ''Vibe fix'')"
      let ?pull = "EvCreatePull ?title (pr_body analysis_result ?file) ?name ''main''"
      obtain c w3 where c: "create_pull_request ?title (pr_body analysis_result ?file)
                              ?name ''main'' w2 = (c, w3)"
        by (cases "create_pull_request ?title (pr_body analysis_result ?file) ?name ''main'' w2")
      from create_pull_request_effect [OF c] have w3: "trace w3 = trace w2 @ [?pull]"
        by simp
      from False a Inr b committed c assms have "w' = w3"
        by (auto simp: stage_publish_def Let_def split: sum.splits)
      with w1 w2 w3 bs_writes bs_bases ok show ?thesis
        by (intro exI [of _ "bs @ [?commit, ?pull]"])
           (auto simp: False branch_bases_def map_filter_append List.map_filter_simps
                 split: sum.splits)
    qed
  qed
qed

lemma analyze_vibe_cases:
  assumes "analyze_vibe req w = (r, w')"
  obtains (stopped) e where "stage_prepare req w = (Inl e, w')" and "\<forall>x. r \<noteq> Inr x"
  | (validated) shots analysis_result w1 r0
    where "stage_prepare req w = (Inr (shots, analysis_result), w1)"
      and "stage_publish req shots analysis_result w1 = (r0, w')"
      and "r = (case r0 of
                  Inl e \<Rightarrow> Inl (if is_HTTPException e then e
                                else HTTPException 500
                                       (''An unexpected error occurred: '' @ str_exn e))
                | Inr response \<Rightarrow> Inr response)"
proof -
  obtain a w1 where a: "stage_prepare req w = (a, w1)"
    by (cases "stage_prepare req w")
  show thesis
  proof (cases a)
    case (Inl e)
    with a assms have "w' = w1" "\<forall>x. r \<noteq> Inr x"
      by (auto simp: analyze_vibe_def analyze_body_def)
    with a Inl stopped show thesis by blast
  next
    case (Inr got)
    obtain shots analysis_result where got: "got = (shots, analysis_result)"
      by (cases got)
    obtain r0 w2 where p: "stage_publish req shots analysis_result w1 = (r0, w2)"
      by (cases "stage_publish req shots analysis_result w1")
    with a Inr got assms have "w' = w2" and
      "r = (case r0 of
              Inl e \<Rightarrow> Inl (if is_HTTPException e then e
                            else HTTPException 500
                                   (''An unexpected error occurred: '' @ str_exn e))
            | Inr response \<Rightarrow> Inr response)"
      by (auto simp: analyze_vibe_def analyze_body_def split: sum.splits)
    with a Inr got p validated show thesis by blast
  qed
qed

subsection \<open>Evaluating the example requests\<close>


lemmas pipeline_defs =
  analyze_vibe_def analyze_body_def stage_prepare_def stage_inputs_def stage_services_def
  stage_repository_def stage_context_def stage_analysis_def stage_publish_def
  has_visual_input_def py_or_def opt_get_def get_file_tree_def check_write_access_def
  get_file_content_def scout_files_def gemini_analyze_vibe_def analyze_video_frames_def
  fill_analysis_def prompt_files_def blob_paths_def fix_incomplete_def fix_item_def
  fix_branch_name_def create_fix_branch_def create_branch_def create_pull_request_def
  commit_file_changes_def permission_signal_def lower_def lower_char_def log_event_def
  dict_get_def Let_def str_nat.simps
  bug_request_def app_world_def app_tree_def app_fix_def quiet_world_def

lemma flaky_run:
  "fst (analyze_vibe bug_request flaky_access_world) =
     Inl (HTTPException 403 (access_denied_detail ''octocat''))"
  by (simp add: pipeline_defs flaky_access_world_def)

lemma no_fix_prepare:
  "fst (stage_prepare bug_request no_fix_world) =
     Inr (None, \<lparr>d_analysis = Some ''Looks fine'', d_severity = Some ''Low'',
                 d_fix = Some (FixObj [''file_path'' \<mapsto> [], ''code'' \<mapsto> []])\<rparr>)"
  by (simp add: pipeline_defs no_fix_world_def)

lemma forbidden_run:
  "fst (analyze_vibe bug_request forbidden_world) = Inl (HTTPException 403 permission_detail)"
  by (simp add: pipeline_defs forbidden_world_def)

lemma forbidden_trace:
  "branch_bases (trace (snd (analyze_vibe bug_request forbidden_world))) = [''main'']"
  by (simp add: pipeline_defs forbidden_world_def branch_bases_def List.map_filter_simps)

lemma no_base_trace:
  "branch_bases (trace (snd (analyze_vibe bug_request no_base_world))) = [''main'', ''master'']"
  by (simp add: pipeline_defs no_base_world_def branch_bases_def List.map_filter_simps)

lemma long_file_analyzed:
  "analyzed (trace (snd (analyze_vibe bug_request long_file_world))) =
     [[(''src/App.tsx'', replicate 2001 CHR ''x'')]]"
  by (simp add: pipeline_defs long_file_world_def analyzed_def List.map_filter_simps)

lemma app_run_trace:
  "scouts (trace (snd (analyze_vibe bug_request app_world))) =
     [([''src/App.tsx'', ''README.md''], Some ''the button is cut off'')] \<and>
   fetched (trace (snd (analyze_vibe bug_request app_world))) = [''src/App.tsx''] \<and>
   analyzed (trace (snd (analyze_vibe bug_request app_world))) = [[(''src/App.tsx'', ''<App/>'')]] \<and>
   prompted (trace (snd (analyze_vibe bug_request app_world))) = [[(''src/App.tsx'', ''<App/>'')]]"
  by (simp add: pipeline_defs scouts_def fetched_def analyzed_def prompted_def
        List.map_filter_simps)

subsection \<open>An analysis without a fix\<close>


lemma write_is_no_read:
  "is_write ev \<Longrightarrow>
   scout_call ev = None \<and> fetch_call ev = None \<and> analyze_call ev = None \<and> prompt_call ev = None"
  by (cases ev) simp_all

lemma writes_add_no_reads:
  "list_all is_write evs \<Longrightarrow>
   List.map_filter scout_call evs = [] \<and> List.map_filter fetch_call evs = [] \<and>
   List.map_filter analyze_call evs = [] \<and> List.map_filter prompt_call evs = []"
  by (induction evs) (auto simp: List.map_filter_simps dest: write_is_no_read)

lemma stage_prepare_frame:
  assumes "stage_prepare req w = (r, w')"
  shows "\<exists>evs. w' = w\<lparr>trace := trace w @ evs\<rparr> \<and> branch_bases evs = [] \<and> writes evs = []"
proof -
  from stage_prepare_effect [OF assms]
  consider "w' = w"
    | file_tree fs rest where
        "w' = w\<lparr>trace := trace w
                 @ [EvScout (blob_paths file_tree) (bug_description req),
                    EvScoutPrompt (take 100 (blob_paths file_tree))
                      (if truthy (bug_description req) then bug_description req else None)]
                 @ map EvFetch fs @ rest\<rparr>"
        "rest = [] \<or> (\<exists>code_context d paths d' encoded.
                  rest = [EvAnalyze code_context d paths,
                          EvAnalyzePrompt (prompt_files code_context) d' encoded])"
    by blast
  then show ?thesis
  proof cases
    case 1
    then show ?thesis
      by (intro exI [of _ "[]"]) (simp add: branch_bases_def writes_def List.map_filter_simps)
  next
    case 2
    then show ?thesis
      by (intro exI [of _ "[EvScout (blob_paths file_tree) (bug_description req),
                    EvScoutPrompt (take 100 (blob_paths file_tree))
                      (if truthy (bug_description req) then bug_description req else None)]
                 @ map EvFetch fs @ rest"])
         (auto simp: branch_bases_def writes_def map_filter_append List.map_filter_simps
                     map_filter_fetches_none filter_fetches_writes)
  qed
qed

text \<open>
  C7. When the stages up to the analysis have returned an analysis whose fix is JSON
  \<^verbatim>\<open>null\<close> or lacks a non-empty \<^verbatim>\<open>file_path\<close> or a non-empty \<^verbatim>\<open>code\<close> (a fix the model
  left out has been filled in by the analysis capability with both fields empty), the
  endpoint returns the response with status \<open>success\<close>, an empty fix and no pull-request
  URL, and the run has called none of \<^verbatim>\<open>create_branch\<close>, \<^verbatim>\<open>commit_file_changes\<close> and
  \<^verbatim>\<open>create_pull_request\<close>.
\<close>

theorem no_actionable_fix:
  assumes "stage_prepare req w = (Inr (shots, analysis_result), w1)"
    and "fix_incomplete (d_fix analysis_result)"
  shows "analyze_vibe req w =
           (Inr \<lparr>resp_status = ''success'', resp_job_id = job_id req,
                 resp_analysis =
                   Some \<lparr>r_analysis = opt_get (d_analysis analysis_result)
                                        ''No specific issue identified'',
                         r_severity = opt_get (d_severity analysis_result) ''Low'',
                         r_fix = \<lparr>fix_file_path = [], fix_code = []\<rparr>\<rparr>,
                 pr_url = None, screenshots_captured = shots, resp_error = None\<rparr>, w1) \<and>
         writes (trace w1) = writes (trace w)"
proof -
  from stage_prepare_frame [OF assms(1)] have "writes (trace w1) = writes (trace w)"
    by (auto simp: writes_def)
  with assms show ?thesis
    by (simp add: analyze_vibe_def analyze_body_def stage_publish_def)
qed

theorem no_actionable_fix_witness:
  "fst (analyze_vibe bug_request no_fix_world) =
     Inr \<lparr>resp_status = ''success'', resp_job_id = ''0a1b2c3d-0000-4000-8000-000000000000'',
          resp_analysis = Some \<lparr>r_analysis = ''Looks fine'', r_severity = ''Low'',
                                r_fix = \<lparr>fix_file_path = [], fix_code = []\<rparr>\<rparr>,
          pr_url = None, screenshots_captured = None, resp_error = None\<rparr> \<and>
   writes (trace (snd (analyze_vibe bug_request no_fix_world))) = []"
proof -
  let ?result = "\<lparr>d_analysis = Some ''Looks fine'', d_severity = Some ''Low'',
                   d_fix = Some (FixObj [''file_path'' \<mapsto> [], ''code'' \<mapsto> []])\<rparr>"
  have prepared: "stage_prepare bug_request no_fix_world =
                    (Inr (None, ?result), snd (stage_prepare bug_request no_fix_world))"
    using no_fix_prepare by (simp add: prod_eq_iff)
  have incomplete: "fix_incomplete (d_fix ?result)"
    by (simp add: fix_incomplete_def)
  have "writes (trace no_fix_world) = []"
    by (simp add: no_fix_world_def app_world_def quiet_world_def writes_def)
  with no_actionable_fix [OF prepared incomplete] show ?thesis
    by (simp add: opt_get_def bug_request_def)
qed

subsection \<open>The base of the new branch\<close>


text \<open>
  Inside one call, \<^verbatim>\<open>create_branch\<close> answers a \<^verbatim>\<open>GithubException\<close> of the lookup of its
  base with the reference of \<^verbatim>\<open>master\<close>, whatever the exception says.
\<close>

lemma create_branch_reads_master:
  assumes "repo_lookup w = None" and "git_ref w (''heads/'' @ base_branch) = Inl e"
    and "is_GithubException e"
  shows "fst (create_branch base_branch name w) =
           (case git_ref w ''heads/master'' of
              Inl e2 \<Rightarrow> Inl e2
            | Inr sha \<Rightarrow>
                (case create_git_ref w (''refs/heads/'' @ name) sha of
                   Some e2 \<Rightarrow> Inl e2
                 | None \<Rightarrow> Inr name))"
  using assms
  by (simp add: create_branch_def Let_def log_event_def split: sum.splits option.splits)

text \<open>
  The calls of \<^verbatim>\<open>create_branch\<close> the endpoint makes: at most two in a run. When the call
  with base \<^verbatim>\<open>main\<close> raises an exception whose lower-cased message holds \<^verbatim>\<open>403\<close> or
  \<^verbatim>\<open>forbidden\<close>, the endpoint raises the \<^verbatim>\<open>HTTPException\<close> with status 403 and that call
  is the only one; when the exception has no such signal, exactly one more call follows,
  with base \<^verbatim>\<open>master\<close>. The exception the endpoint sees is the one \<^verbatim>\<open>create_branch\<close>
  lets through, after its own fallback to the reference of \<^verbatim>\<open>master\<close>.
\<close>

lemma endpoint_branch_calls:
  assumes "analyze_vibe req w = (r, w')"
  shows "length (branch_bases (trace w')) \<le> length (branch_bases (trace w)) + 2 \<and>
         (\<forall>e. branch_bases (trace w') \<noteq> branch_bases (trace w) \<longrightarrow>
              fst (create_branch ''main'' (fix_branch_name req) w) = Inl e \<longrightarrow>
              (if permission_signal e
               then r = Inl (HTTPException 403 permission_detail) \<and>
                    branch_bases (trace w') = branch_bases (trace w) @ [''main'']
               else branch_bases (trace w') = branch_bases (trace w) @ [''main'', ''master'']))"
  using assms
proof (cases rule: analyze_vibe_cases)
  case (stopped e)
  from stage_prepare_frame [OF stopped(1)]
  have "branch_bases (trace w') = branch_bases (trace w)"
    by (auto simp: branch_bases_append)
  then show ?thesis by simp
next
  case (validated shots analysis_result w1 r0)
  let ?main = "create_branch ''main'' (fix_branch_name req)"
  from stage_prepare_frame [OF validated(1)] obtain evs where
    w1: "w1 = w\<lparr>trace := trace w @ evs\<rparr>" and "branch_bases evs = []"
    by blast
  then have same: "branch_bases (trace w1) = branch_bases (trace w)"
    by (simp add: branch_bases_append)
  from w1 have frame: "fst (?main w1) = fst (?main w)"
    by (simp add: create_branch_frame)
  from stage_publish_effect [OF validated(2)] obtain new where
    new: "trace w' = trace w1 @ new"
    and skipped: "fix_incomplete (d_fix analysis_result) \<longrightarrow> new = []"
    and created: "\<not> fix_incomplete (d_fix analysis_result) \<longrightarrow>
          (case fst (?main w1) of
             Inr created \<Rightarrow> branch_bases new = [''main'']
           | Inl e \<Rightarrow>
               if permission_signal e
               then branch_bases new = [''main''] \<and>
                    r0 = Inl (HTTPException 403 permission_detail)
               else branch_bases new = [''main'', ''master''])"
    by blast
  from new same have bases: "branch_bases (trace w') = branch_bases (trace w) @ branch_bases new"
    by (simp add: branch_bases_append)
  show ?thesis
  proof (cases "fix_incomplete (d_fix analysis_result)")
    case True
    with skipped bases show ?thesis by (simp add: branch_bases_def List.map_filter_simps)
  next
    case False
    with created frame have
      "case fst (?main w) of
         Inr created \<Rightarrow> branch_bases new = [''main'']
       | Inl e \<Rightarrow>
           if permission_signal e
           then branch_bases new = [''main''] \<and> r0 = Inl (HTTPException 403 permission_detail)
           else branch_bases new = [''main'', ''master'']"
      by simp
    with bases validated(3) show ?thesis
      by (auto split: sum.splits if_splits)
  qed
qed


lemma endpoint_branch_calls_examples:
  "fst (analyze_vibe bug_request forbidden_world) = Inl (HTTPException 403 permission_detail) \<and>
   branch_bases (trace (snd (analyze_vibe bug_request forbidden_world))) = [''main''] \<and>
   branch_bases (trace (snd (analyze_vibe bug_request no_base_world))) = [''main'', ''master'']"
proof -
  let ?name = "fix_branch_name bug_request"
  let ?denied = "GithubException ''403 {\"message\": \"Forbidden\"}''"
  let ?missing = "GithubException ''404 {\"message\": \"Not Found\"}''"
  have clean: "branch_bases (trace forbidden_world) = []" "branch_bases (trace no_base_world) = []"
    by (simp_all add: forbidden_world_def no_base_world_def app_world_def quiet_world_def
          branch_bases_def List.map_filter_simps)
  have run1: "analyze_vibe bug_request forbidden_world =
                (fst (analyze_vibe bug_request forbidden_world),
                 snd (analyze_vibe bug_request forbidden_world))"
    by simp
  have attempted1: "branch_bases (trace (snd (analyze_vibe bug_request forbidden_world))) \<noteq>
                      branch_bases (trace forbidden_world)"
    using forbidden_trace clean by simp
  have failed1: "fst (create_branch ''main'' ?name forbidden_world) = Inl ?denied"
    by (simp add: pipeline_defs forbidden_world_def)
  have signal1: "permission_signal ?denied"
    by (simp add: permission_signal_def lower_def lower_char_def)
  from endpoint_branch_calls [OF run1, THEN conjunct2, rule_format, OF attempted1 failed1]
    signal1 clean
  have 1: "fst (analyze_vibe bug_request forbidden_world) =
             Inl (HTTPException 403 permission_detail) \<and>
           branch_bases (trace (snd (analyze_vibe bug_request forbidden_world))) = [''main'']"
    by simp
  have run2: "analyze_vibe bug_request no_base_world =
                (fst (analyze_vibe bug_request no_base_world),
                 snd (analyze_vibe bug_request no_base_world))"
    by simp
  have attempted2: "branch_bases (trace (snd (analyze_vibe bug_request no_base_world))) \<noteq>
                      branch_bases (trace no_base_world)"
    using no_base_trace clean by simp
  have failed2: "fst (create_branch ''main'' ?name no_base_world) = Inl ?missing"
    by (simp add: pipeline_defs no_base_world_def)
  have signal2: "\<not> permission_signal ?missing"
    by (simp add: permission_signal_def lower_def lower_char_def)
  from endpoint_branch_calls [OF run2, THEN conjunct2, rule_format, OF attempted2 failed2]
    signal2 clean
  have 2: "branch_bases (trace (snd (analyze_vibe bug_request no_base_world))) =
             [''main'', ''master'']"
    by simp
  from 1 2 show ?thesis by simp
qed

text \<open>
  C4. The claim reads: when the creation of the branch against \<^verbatim>\<open>main\<close> fails with a
  permission signal (403, forbidden), the pipeline reports the denied permission at once
  and attempts no other base; after any other failure it retries once against \<^verbatim>\<open>master\<close>.
  The endpoint has the handler for it, but \<^verbatim>\<open>create_branch\<close> catches every
  \<^verbatim>\<open>GithubException\<close> of the lookup of its base, the 403 included, and reads the reference
  of \<^verbatim>\<open>master\<close> instead. Where the platform refuses the reference of \<^verbatim>\<open>main\<close> with a 403
  and \<^verbatim>\<open>master\<close> is readable, the first call returns a branch cut from \<^verbatim>\<open>master\<close>, and the
  run ends with a pull request and without the \<^verbatim>\<open>HTTPException\<close> with status 403. Where
  the repository has no \<^verbatim>\<open>master\<close>, the endpoint sees the 404 of that second lookup,
  calls \<^verbatim>\<open>create_branch\<close> again with base \<^verbatim>\<open>master\<close> and raises the \<^verbatim>\<open>HTTPException\<close> with
  status 500.
\<close>

theorem permission_failure_masked:
  "git_ref masked_main_world ''heads/main'' =
     Inl (GithubException ''403 {\"message\": \"Forbidden\"}'') \<and>
   permission_signal (GithubException ''403 {\"message\": \"Forbidden\"}'') \<and>
   git_ref masked_main_world ''heads/master'' = Inr ''m45'' \<and>
   fst (create_branch ''main'' (fix_branch_name bug_request) masked_main_world) =
     Inr (fix_branch_name bug_request) \<and>
   fst (analyze_vibe bug_request masked_main_world) =
     Inr \<lparr>resp_status = ''success'', resp_job_id = job_id bug_request,
          resp_analysis =
            Some \<lparr>r_analysis = ''Button overflows its container'', r_severity = ''Medium'',
                  r_fix = \<lparr>fix_file_path = ''src/App.tsx'', fix_code = ''<App fixed/>''\<rparr>\<rparr>,
          pr_url = Some ''https://github.com/o/r/pull/1'', screenshots_captured = None,
          resp_error = None\<rparr> \<and>
   branch_bases (trace (snd (analyze_vibe bug_request masked_main_world))) = [''main''] \<and>
   git_ref hidden_main_world ''heads/main'' =
     Inl (GithubException ''403 {\"message\": \"Forbidden\"}'') \<and>
   fst (analyze_vibe bug_request hidden_main_world) =
     Inl (HTTPException 500 ''Failed to create branch: 404 {\"message\": \"Not Found\"}'') \<and>
   branch_bases (trace (snd (analyze_vibe bug_request hidden_main_world))) =
     [''main'', ''master'']"
  by (simp add: pipeline_defs masked_main_world_def hidden_main_world_def branch_bases_def
        List.map_filter_simps)

subsection \<open>Scouting and the code context\<close>

lemma scouts_append: "scouts (tr @ evs) = scouts tr @ scouts evs"
  by (simp add: scouts_def map_filter_append)

lemma fetched_append: "fetched (tr @ evs) = fetched tr @ fetched evs"
  by (simp add: fetched_def map_filter_append)

lemma analyzed_append: "analyzed (tr @ evs) = analyzed tr @ analyzed evs"
  by (simp add: analyzed_def map_filter_append)

lemma prompted_append: "prompted (tr @ evs) = prompted tr @ prompted evs"
  by (simp add: prompted_def map_filter_append)

lemma stage_publish_reads:
  assumes "stage_publish req shots analysis_result w = (r, w')"
  shows "scouts (trace w') = scouts (trace w) \<and> fetched (trace w') = fetched (trace w) \<and>
         analyzed (trace w') = analyzed (trace w) \<and> prompted (trace w') = prompted (trace w)"
proof -
  from stage_publish_effect [OF assms] obtain evs where
    "trace w' = trace w @ evs" and "list_all is_write evs"
    by blast
  with writes_add_no_reads [of evs] show ?thesis
    by (simp add: scouts_def fetched_def analyzed_def prompted_def map_filter_append)
qed


text \<open>
  C5. A run of the endpoint calls \<^verbatim>\<open>scout_files\<close> at most once, and a call it makes
  receives the paths of all blobs of the file tree, in the order of the tree, and the
  description of the request as it came. The paths whose content the run then fetches
  are an initial part of the first ten paths the call returned, and all of these ten
  when the run returns a response. (The capability itself lists the first 100 of the
  paths it received in the prompt it builds for the model.)
\<close>

theorem scouting_sends_blob_paths:
  assumes "analyze_vibe req w = (r, w')"
  shows "scouts (trace w') = scouts (trace w) \<and> fetched (trace w') = fetched (trace w) \<or>
         (\<exists>file_tree.
            get_file_tree w = Inr file_tree \<and>
            scouts (trace w') =
              scouts (trace w) @ [(blob_paths file_tree, bug_description req)] \<and>
            (case fst (scout_files (blob_paths file_tree) (bug_description req) w) of
               Inl e \<Rightarrow> fetched (trace w') = fetched (trace w)
             | Inr relevant_files \<Rightarrow>
                 (\<exists>n. fetched (trace w') =
                        fetched (trace w) @ take n (take 10 relevant_files)) \<and>
                 ((\<exists>response. r = Inr response) \<longrightarrow>
                    fetched (trace w') = fetched (trace w) @ take 10 relevant_files)))"
proof -
  have prepared: "scouts (trace w1) = scouts (trace w) \<and> fetched (trace w1) = fetched (trace w) \<or>
         (\<exists>file_tree.
            get_file_tree w = Inr file_tree \<and>
            scouts (trace w1) =
              scouts (trace w) @ [(blob_paths file_tree, bug_description req)] \<and>
            (case fst (scout_files (blob_paths file_tree) (bug_description req) w) of
               Inl e \<Rightarrow> fetched (trace w1) = fetched (trace w)
             | Inr relevant_files \<Rightarrow>
                 (\<exists>n. fetched (trace w1) =
                        fetched (trace w) @ take n (take 10 relevant_files)) \<and>
                 ((\<exists>x. a = Inr x) \<longrightarrow>
                    fetched (trace w1) = fetched (trace w) @ take 10 relevant_files)))"
    if "stage_prepare req w = (a, w1)" for a w1
  proof -
    from stage_prepare_effect [OF that]
    consider "w1 = w"
      | file_tree fs rest where
          "get_file_tree w = Inr file_tree"
          "w1 = w\<lparr>trace := trace w
                   @ [EvScout (blob_paths file_tree) (bug_description req),
                      EvScoutPrompt (take 100 (blob_paths file_tree))
                        (if truthy (bug_description req) then bug_description req else None)]
                   @ map EvFetch fs @ rest\<rparr>"
          "case fst (scout_files (blob_paths file_tree) (bug_description req) w) of
             Inl e \<Rightarrow> fs = []
           | Inr relevant_files \<Rightarrow>
               (\<exists>n. fs = take n (take 10 relevant_files)) \<and>
               ((\<exists>x. a = Inr x) \<longrightarrow> fs = take 10 relevant_files)"
          "rest = [] \<or> (\<exists>code_context d paths d' encoded.
                    rest = [EvAnalyze code_context d paths,
                            EvAnalyzePrompt (prompt_files code_context) d' encoded])"
      by blast
    then show ?thesis
    proof cases
      case 1
      then show ?thesis by simp
    next
      case 2
      from 2(2,4) have "scouts (trace w1) =
          scouts (trace w) @ [(blob_paths file_tree, bug_description req)]"
        and "fetched (trace w1) = fetched (trace w) @ fs"
        by (auto simp: scouts_def fetched_def map_filter_append List.map_filter_simps
                       map_filter_fetches_none map_filter_fetches)
      with 2(1,3) show ?thesis
        by (intro disjI2 exI [of _ file_tree]) (auto split: sum.splits)
    qed
  qed
  from assms show ?thesis
  proof (cases rule: analyze_vibe_cases)
    case (stopped e)
    from prepared [OF stopped(1)] stopped(2) show ?thesis
      by (auto split: sum.splits)
  next
    case (validated shots analysis_result w1 r0)
    from stage_publish_reads [OF validated(2)]
    have "scouts (trace w') = scouts (trace w1)" "fetched (trace w') = fetched (trace w1)"
      by simp_all
    with prepared [OF validated(1)] show ?thesis
      by (auto split: sum.splits)
  qed
qed


lemma crowded_run:
  "(\<exists>response. fst (analyze_vibe bug_request crowded_world) = Inr response) \<and>
   scouts (trace (snd (analyze_vibe bug_request crowded_world))) \<noteq> []"
  by (simp add: pipeline_defs crowded_world_def twelve_paths_def scouts_def
        List.map_filter_simps)

theorem scouting_sends_blob_paths_witness:
  "scouts (trace (snd (analyze_vibe bug_request crowded_world))) =
     [([''src/App.tsx'', ''README.md''], Some ''the button is cut off'')] \<and>
   fetched (trace (snd (analyze_vibe bug_request crowded_world))) = take 10 twelve_paths"
proof -
  let ?run = "analyze_vibe bug_request crowded_world"
  have run: "?run = (fst ?run, snd ?run)"
    by simp
  have clean: "scouts (trace crowded_world) = []" "fetched (trace crowded_world) = []"
    by (simp_all add: crowded_world_def app_world_def quiet_world_def scouts_def fetched_def
          List.map_filter_simps)
  have tree: "get_file_tree crowded_world = Inr app_tree"
    by (simp add: get_file_tree_def crowded_world_def app_world_def quiet_world_def)
  have paths: "blob_paths app_tree = [''src/App.tsx'', ''README.md'']"
    by (simp add: blob_paths_def app_tree_def)
  have description: "bug_description bug_request = Some ''the button is cut off''"
    by (simp add: bug_request_def)
  have answer: "fst (scout_files [''src/App.tsx'', ''README.md''] (Some ''the button is cut off'')
                      crowded_world) = Inr twelve_paths"
    by (simp add: scout_files_def Let_def log_event_def crowded_world_def app_world_def
          quiet_world_def)
  from scouting_sends_blob_paths [OF run] crowded_run clean tree
  have "scouts (trace (snd ?run)) = [(blob_paths app_tree, bug_description bug_request)] \<and>
        (case fst (scout_files (blob_paths app_tree) (bug_description bug_request)
                     crowded_world) of
           Inl e \<Rightarrow> fetched (trace (snd ?run)) = []
         | Inr relevant_files \<Rightarrow> fetched (trace (snd ?run)) = take 10 relevant_files)"
    by (auto split: sum.splits)
  with paths description answer show ?thesis
    by simp
qed

lemma prompt_files_capped: "\<forall>(file_path, text) \<in> set (prompt_files code_context). length text \<le> 2000"
  by (auto simp: prompt_files_def)

text \<open>
  C8 (amended). The claim reads: the code context handed to the analysis capability of
  the Reasoning Gateway holds at most 10 files of at most 2000 characters each, the cap
  being applied before the hand-off. The endpoint caps the number of files only. What
  holds for every run: the analysis capability is called at most once, with a code
  context of at most 10 files whose contents are as they were fetched; the capability
  cuts each content to its first 2000 characters when it builds the prompt for the
  model, so the prompt holds at most 10 files of at most 2000 characters each.
\<close>

theorem code_context_caps:
  assumes "analyze_vibe req w = (r, w')"
  shows "analyzed (trace w') = analyzed (trace w) \<and> prompted (trace w') = prompted (trace w) \<or>
         (\<exists>code_context.
            analyzed (trace w') = analyzed (trace w) @ [code_context] \<and>
            prompted (trace w') = prompted (trace w) @ [prompt_files code_context] \<and>
            length code_context \<le> 10 \<and>
            length (prompt_files code_context) \<le> 10 \<and>
            (\<forall>(file_path, text) \<in> set (prompt_files code_context). length text \<le> 2000))"
proof -
  have prepared: "analyzed (trace w1) = analyzed (trace w) \<and>
                  prompted (trace w1) = prompted (trace w) \<or>
         (\<exists>code_context.
            analyzed (trace w1) = analyzed (trace w) @ [code_context] \<and>
            prompted (trace w1) = prompted (trace w) @ [prompt_files code_context] \<and>
            length code_context \<le> 10)"
    if "stage_prepare req w = (a, w1)" for a w1
  proof -
    from stage_prepare_effect [OF that]
    consider "w1 = w"
      | file_tree fs rest where
          "w1 = w\<lparr>trace := trace w
                   @ [EvScout (blob_paths file_tree) (bug_description req),
                      EvScoutPrompt (take 100 (blob_paths file_tree))
                        (if truthy (bug_description req) then bug_description req else None)]
                   @ map EvFetch fs @ rest\<rparr>"
          "rest = [] \<or> (\<exists>code_context d paths d' encoded.
                    rest = [EvAnalyze code_context d paths,
                            EvAnalyzePrompt (prompt_files code_context) d' encoded] \<and>
                    length code_context \<le> 10)"
      by blast
    then show ?thesis
    proof cases
      case 1
      then show ?thesis by simp
    next
      case 2
      from 2(1) have "analyzed (trace w1) = analyzed (trace w) @ analyzed rest"
        and "prompted (trace w1) = prompted (trace w) @ prompted rest"
        by (simp_all add: analyzed_def prompted_def map_filter_append List.map_filter_simps
                          map_filter_fetches_none)
      with 2(2) show ?thesis
        by (auto simp: analyzed_def prompted_def List.map_filter_simps)
    qed
  qed
  have capped: "length (prompt_files c) \<le> 10 \<and>
                (\<forall>(file_path, text) \<in> set (prompt_files c). length text \<le> 2000)"
    if "length c \<le> 10" for c
    using that prompt_files_capped [of c] by (simp add: prompt_files_def)
  from assms show ?thesis
  proof (cases rule: analyze_vibe_cases)
    case (stopped e)
    from prepared [OF stopped(1)] capped show ?thesis
      by blast
  next
    case (validated shots analysis_result w1 r0)
    from stage_publish_reads [OF validated(2)]
    have "analyzed (trace w') = analyzed (trace w1)" "prompted (trace w') = prompted (trace w1)"
      by simp_all
    with prepared [OF validated(1)] capped show ?thesis
      by metis
  qed
qed


theorem code_context_caps_witness:
  "analyzed (trace (snd (analyze_vibe bug_request long_file_world))) =
     [[(''src/App.tsx'', replicate 2001 CHR ''x'')]] \<and>
   prompted (trace (snd (analyze_vibe bug_request long_file_world))) =
     [[(''src/App.tsx'', replicate 2000 CHR ''x'')]]"
proof -
  let ?run = "analyze_vibe bug_request long_file_world"
  have run: "?run = (fst ?run, snd ?run)"
    by simp
  have clean: "analyzed (trace long_file_world) = []" "prompted (trace long_file_world) = []"
    by (simp_all add: long_file_world_def app_world_def quiet_world_def analyzed_def
          prompted_def List.map_filter_simps)
  from code_context_caps [OF run] clean long_file_analyzed
  have "prompted (trace (snd ?run)) =
          [prompt_files [(''src/App.tsx'', replicate 2001 CHR ''x'')]]"
    by auto
  with long_file_analyzed show ?thesis
    by (simp add: prompt_files_def)
qed

text \<open>
  C8 as stated fails where a relevant file has 2001 characters: the code context the
  endpoint hands to the analysis capability holds all of them.
\<close>

theorem code_context_uncapped_counterexample:
  "analyzed (trace (snd (analyze_vibe bug_request long_file_world))) =
     [[(''src/App.tsx'', replicate 2001 CHR ''x'')]] \<and>
   \<not> length (replicate 2001 CHR ''x'') \<le> (2000::nat)"
  using long_file_analyzed by simp

subsection \<open>The check of write access\<close>

lemma check_write_access_never_raises:
  "check_write_access w =
     Inr (repo_lookup w = None \<and> collaborator w = Inr True)"
  by (auto simp: check_write_access_def split: option.splits sum.splits)

lemma access_check_error_denies:
  assumes "get_file_tree w = Inr file_tree" and "collaborator w = Inl e"
  shows "stage_repository login w = Inl (HTTPException 403 (access_denied_detail login))"
  using assms by (simp add: stage_repository_def check_write_access_never_raises)

text \<open>
  C3. The claim reads: an error raised while the write access is checked does not abort
  the run; only an explicit negative result does. The endpoint has the handler for it
  (an exception of \<^verbatim>\<open>check_write_access\<close> other than an \<^verbatim>\<open>HTTPException\<close> is logged and the
  run goes on), but \<^verbatim>\<open>check_write_access\<close> catches every exception of the gateway itself
  and returns \<^verbatim>\<open>False\<close>. Where the query for the collaborators fails with a gateway
  error, the check therefore answers \<^verbatim>\<open>False\<close> and the endpoint raises the
  \<^verbatim>\<open>HTTPException\<close> with status 403.
\<close>

theorem access_check_error_aborts:
  "collaborator flaky_access_world = Inl (GithubException ''502 Bad Gateway'') \<and>
   check_write_access flaky_access_world = Inr False \<and>
   analyze_vibe bug_request flaky_access_world =
     (Inl (HTTPException 403 (access_denied_detail ''octocat'')), flaky_access_world)"
  by (simp add: pipeline_defs flaky_access_world_def)

end
